theory Spec2Isabelle
  imports Main
begin

section \<open>JavaScript values, template literals and plain objects\<close>

text \<open>
  The tag values of \<^verbatim>\<open>src/meta.ts\<close> are declared \<^verbatim>\<open>string | undefined\<close>
  (interfaces \<^verbatim>\<open>linkedFileType\<close> and \<^verbatim>\<open>xmpTagType\<close>): \<open>None\<close> is
  \<^verbatim>\<open>undefined\<close>. On such values the loose comparison \<^verbatim>\<open>!=\<close> of the source is
  plain inequality.
\<close>

type_synonym jsval = "string option"

text \<open>A value inside a template literal: \<^verbatim>\<open>`${v}`\<close> prints \<^verbatim>\<open>undefined\<close> as a word.\<close>

definition template :: "jsval \<Rightarrow> string" where
  "template v = (case v of None \<Rightarrow> ''undefined'' | Some s \<Rightarrow> s)"

text \<open>
  A plain object (\<^verbatim>\<open>{}\<close>) is the list of its own enumerable string-keyed properties
  in creation order. \<^verbatim>\<open>obj[k] = v\<close> overwrites an existing own property in place and
  appends a new one otherwise. The key \<^verbatim>\<open>__proto__\<close> is the exception of the language:
  on an object created by \<^verbatim>\<open>{}\<close> the assignment runs the setter inherited from
  \<^verbatim>\<open>Object.prototype\<close>, which replaces the prototype (or does nothing for a
  primitive value) and creates no own property.
\<close>

type_synonym 'v js_object = "(string \<times> 'v) list"

fun put :: "'v js_object \<Rightarrow> string \<Rightarrow> 'v \<Rightarrow> 'v js_object" where
  "put [] k v = [(k, v)]"
| "put (p # ps) k v = (if fst p = k then (k, v) # ps else p # put ps k v)"

definition assign :: "'v js_object \<Rightarrow> string \<Rightarrow> 'v \<Rightarrow> 'v js_object" where
  "assign obj k v = (if k = ''__proto__'' then obj else put obj k v)"

text \<open>
  \<^verbatim>\<open>Object.entries\<close> and \<^verbatim>\<open>Object.keys\<close> list the own properties in the order of
  OrdinaryOwnPropertyKeys: first the keys that are array indices (the canonical decimal
  numerals of the integers below \<open>2^32 - 1\<close>) in ascending numeric order, then every other
  key in creation order.
\<close>

definition is_digit :: "char \<Rightarrow> bool" where
  "is_digit c = (c \<in> set ''0123456789'')"

definition index_value :: "string \<Rightarrow> int" where
  "index_value k = foldl (\<lambda>n c. 10 * n + (of_char c - 48)) 0 k"

definition is_array_index :: "string \<Rightarrow> bool" where
  "is_array_index k =
     (k \<noteq> [] \<and> list_all is_digit k \<and> (k = ''0'' \<or> hd k \<noteq> CHR ''0'')
      \<and> index_value k < 4294967295)"

definition Object_entries :: "'v js_object \<Rightarrow> (string \<times> 'v) list" where
  "Object_entries obj =
     sort_key (\<lambda>p. index_value (fst p)) (filter (\<lambda>p. is_array_index (fst p)) obj)
     @ filter (\<lambda>p. \<not> is_array_index (fst p)) obj"

definition Object_keys :: "'v js_object \<Rightarrow> string list" where
  "Object_keys obj = map fst (Object_entries obj)"

text \<open>
  The argument \<^verbatim>\<open>newTags: any\<close> is read through \<^verbatim>\<open>hasOwnProperty\<close> and through the
  three property reads only: a finite map from property names to values, where a key may
  be present with the value \<^verbatim>\<open>undefined\<close>.
\<close>

type_synonym newTagsType = "string \<rightharpoonup> jsval"

definition hasOwnProperty :: "newTagsType \<Rightarrow> string \<Rightarrow> bool" where
  "hasOwnProperty obj k = (obj k \<noteq> None)"

definition get_prop :: "newTagsType \<Rightarrow> string \<Rightarrow> jsval" where
  "get_prop obj k = (case obj k of None \<Rightarrow> None | Some v \<Rightarrow> v)"

section \<open>Library functions used by the source\<close>

text \<open>
  Modelled from the spec: \<^verbatim>\<open>path.basename\<close> is Node's library function, not code of
  \<^verbatim>\<open>src/\<close>. The glossary defines the base name as the final path component with the
  directory components removed; this is the POSIX flavour of Node's function: trailing
  separators are dropped, then everything up to the last separator.
\<close>

definition basename :: "string \<Rightarrow> string" where
  "basename p =
     rev (takeWhile (\<lambda>c. c \<noteq> CHR ''/'') (dropWhile (\<lambda>c. c = CHR ''/'') (rev p)))"

text \<open>A rejection reason: an \<^verbatim>\<open>Error\<close> object, of which the source reads \<^verbatim>\<open>message\<close>.\<close>

datatype error = Error (message: string)

text \<open>
  Modelled from the spec: the raw tag structure of the external metadata tool (section 6),
  with the field \<^verbatim>\<open>SourceFile\<close> always there and \<^verbatim>\<open>Creator\<close>, \<^verbatim>\<open>License\<close>,
  \<^verbatim>\<open>Rights\<close> string-valued and possibly absent.
\<close>

record RawTags =
  SourceFile :: string
  Creator :: jsval
  License :: jsval
  Rights :: jsval

text \<open>
  \<^verbatim>\<open>parseJSON(JSON.stringify(rawTags))\<close>: on a structure of plain strings the round trip
  returns the same fields; a field that is \<^verbatim>\<open>undefined\<close> is dropped by
  \<^verbatim>\<open>JSON.stringify\<close> and reads as \<^verbatim>\<open>undefined\<close> afterwards.
\<close>

definition parseJSON_stringify :: "RawTags \<Rightarrow> RawTags" where
  "parseJSON_stringify rawTags = rawTags"

text \<open>
  \<^verbatim>\<open>Promise.all\<close>: fulfilled with the values in the order of the promises when all are
  fulfilled, rejected with the reason of one rejected promise otherwise. Which rejection
  wins depends on timing; the model takes the first in the order of the list.
\<close>

fun Promise_all :: "(error + 'a) list \<Rightarrow> error + 'a list" where
  "Promise_all [] = Inr []"
| "Promise_all (p # ps) =
     (case p of
        Inl e \<Rightarrow> Inl e
      | Inr v \<Rightarrow> (case Promise_all ps of Inl e \<Rightarrow> Inl e | Inr vs \<Rightarrow> Inr (v # vs)))"

section \<open>The data model of \<^verbatim>\<open>meta.ts\<close>\<close>

datatype fileType = audio_type | image_type

record linkedFileType =
  fileName :: string
  fileType :: fileType
  sourceFile :: jsval
  creator :: jsval
  license :: jsval
  rights :: jsval

text \<open>\<^verbatim>\<open>xmpTagType\<close>: an object with the optional keys \<^verbatim>\<open>XMP:Creator\<close>,
  \<^verbatim>\<open>XMP:License\<close> and \<^verbatim>\<open>XMP:Rights\<close>.\<close>

type_synonym xmpTagType = "jsval js_object"

text \<open>
  The external tool \<^verbatim>\<open>exiftool\<close>: what each call of \<^verbatim>\<open>readRaw\<close> and of \<^verbatim>\<open>write\<close>
  (here \<open>writeTags\<close>) answers. The calls themselves are
  recorded as events, in the order in which the program makes them.
\<close>

record exiftool =
  readRaw :: "string \<Rightarrow> string list \<Rightarrow> error + RawTags"
  writeTags :: "jsval \<Rightarrow> xmpTagType \<Rightarrow> string list \<Rightarrow> error + unit"

datatype event =
    ReadRawCall string "string list"
  | WriteCall jsval xmpTagType "string list"
  | ConsoleLogRed string
  | ConsoleError string

text \<open>What an \<^verbatim>\<open>async\<close> function did: the value it resolved with (or the rejection),
  and its effects.\<close>

record 'a outcome =
  returned :: "error + 'a"
  effects :: "event list"

section \<open>\<^verbatim>\<open>getTags\<close>\<close>

text \<open>The body of \<^verbatim>\<open>allTags.forEach\<close> (lines 52 to 68).\<close>

definition add_linkedFile ::
  "linkedFileType js_object \<Rightarrow> RawTags \<Rightarrow> linkedFileType js_object" where
  "add_linkedFile linkedFiles rawTags =
     (let tags = parseJSON_stringify rawTags;
          fid = basename (SourceFile tags)
      in assign linkedFiles fid
           \<lparr>fileName = fid, fileType = image_type,
            sourceFile = Some (SourceFile tags),
            creator = Creator tags, license = License tags, rights = Rights tags\<rparr>)"

definition getTags :: "exiftool \<Rightarrow> string list \<Rightarrow> linkedFileType js_object outcome" where
  "getTags tool files =
     (let calls = map (\<lambda>file. ReadRawCall file [''all'', ''-xmp:all'']) files;
          promises = map (\<lambda>file. readRaw tool file [''all'', ''-xmp:all'']) files
      in case Promise_all promises of
           Inl e \<Rightarrow> \<lparr>returned = Inl e, effects = calls\<rparr>
         | Inr allTags \<Rightarrow>
             \<lparr>returned = Inr (foldl add_linkedFile [] allTags), effects = calls\<rparr>)"

section \<open>\<^verbatim>\<open>writeImageTags\<close>\<close>

text \<open>The variables of the loop: \<^verbatim>\<open>modified\<close>, \<^verbatim>\<open>promises\<close> (each promise is the
  answer of its \<^verbatim>\<open>exiftool.write\<close> call), \<^verbatim>\<open>tagToWrite\<close> of the current iteration,
  and the effects so far.\<close>

record loop_state =
  modified :: "string list"
  promises :: "(error + unit) list"
  tagToWrite :: xmpTagType
  emitted :: "event list"

text \<open>
  One of the three blocks "Update creator info", "Update License info", "Update Rights
  info" (lines 90 to 123), which differ in the field name, the field read from
  \<^verbatim>\<open>currentTags\<close> and the key of \<^verbatim>\<open>tagToWrite\<close> only.
\<close>

definition update_info ::
  "string \<Rightarrow> jsval \<Rightarrow> string \<Rightarrow> newTagsType \<Rightarrow> linkedFileType \<Rightarrow> loop_state \<Rightarrow> loop_state" where
  "update_info field current xmp newTags currentTags st =
     (if hasOwnProperty newTags field then
        (let st' =
           (if current \<noteq> get_prop newTags field then
              (let warning =
                 ''WARNING: Overwriting '' @ basename (fileName currentTags) @ '' '' @
                 ''existing '' @ field @ '': '' @ template current @
                 '' with '' @ template (get_prop newTags field)
               in st\<lparr>modified := modified st @ [warning],
                      emitted := emitted st @ [ConsoleLogRed warning]\<rparr>)
            else st)
         in st'\<lparr>tagToWrite := assign (tagToWrite st') xmp (get_prop newTags field)\<rparr>)
      else st)"

text \<open>The body of the \<^verbatim>\<open>for\<close> loop over \<^verbatim>\<open>Object.entries(fileTags)\<close> (lines 87 to 132).\<close>

definition loop_body ::
  "exiftool \<Rightarrow> newTagsType \<Rightarrow> loop_state \<Rightarrow> string \<times> linkedFileType \<Rightarrow> loop_state" where
  "loop_body tool newTags st entry =
     (let currentTags = snd entry;
          s0 = st\<lparr>tagToWrite := []\<rparr>;
          s1 = update_info ''creator'' (creator currentTags) ''XMP:Creator'' newTags currentTags s0;
          s2 = update_info ''license'' (license currentTags) ''XMP:License'' newTags currentTags s1;
          s3 = update_info ''rights'' (rights currentTags) ''XMP:Rights'' newTags currentTags s2
      in if length (Object_keys (tagToWrite s3)) \<noteq> 0 then
           s3\<lparr>promises := promises s3 @
                  [writeTags tool (sourceFile currentTags) (tagToWrite s3) [''-overwrite_original'']],
               emitted := emitted s3 @
                  [WriteCall (sourceFile currentTags) (tagToWrite s3) [''-overwrite_original'']]\<rparr>
         else s3)"

definition writeImageTags :: "exiftool \<Rightarrow> string list \<Rightarrow> newTagsType \<Rightarrow> string list outcome" where
  "writeImageTags tool files newTags =
     (let got = getTags tool files in
      case returned got of
        Inl e \<Rightarrow> \<lparr>returned = Inl e, effects = effects got\<rparr>
      | Inr fileTags \<Rightarrow>
          (let st = foldl (loop_body tool newTags)
                      \<lparr>modified = [], promises = [], tagToWrite = [], emitted = []\<rparr>
                      (Object_entries fileTags)
           in case Promise_all (promises st) of
                Inl err \<Rightarrow>
                  \<lparr>returned = Inr (modified st),
                   effects = effects got @ emitted st @ [ConsoleError (message err)]\<rparr>
              | Inr _ \<Rightarrow>
                  \<lparr>returned = Inr (modified st), effects = effects got @ emitted st\<rparr>))"

section \<open>The behaviour the specification describes\<close>

text \<open>The text of a warning, in the form the specification gives:
  \<^verbatim>\<open>WARNING: Overwriting <baseName> existing <field>: <currentValue> with <desiredValue>\<close>.\<close>

definition warning_text :: "string \<Rightarrow> string \<Rightarrow> jsval \<Rightarrow> jsval \<Rightarrow> string" where
  "warning_text baseName field currentValue desiredValue =
     ''WARNING: Overwriting '' @ baseName @ '' existing '' @ field @ '': '' @
     template currentValue @ '' with '' @ template desiredValue"

text \<open>The warnings of one field of one file: none when the key is absent from
  \<open>desiredTags\<close>, one when it is present and the current value differs from the desired
  one, none when the two are equal.\<close>

definition field_warning :: "newTagsType \<Rightarrow> string \<Rightarrow> string \<Rightarrow> jsval \<Rightarrow> string list" where
  "field_warning desiredTags baseName field currentValue =
     (case desiredTags field of
        None \<Rightarrow> []
      | Some desiredValue \<Rightarrow>
          if currentValue \<noteq> desiredValue
          then [warning_text baseName field currentValue desiredValue] else [])"

definition file_warnings :: "newTagsType \<Rightarrow> string \<times> linkedFileType \<Rightarrow> string list" where
  "file_warnings desiredTags entry =
     field_warning desiredTags (fst entry) ''creator'' (creator (snd entry)) @
     field_warning desiredTags (fst entry) ''license'' (license (snd entry)) @
     field_warning desiredTags (fst entry) ''rights'' (rights (snd entry))"

text \<open>The write payload: for each key present in \<open>desiredTags\<close>, the desired value under
  the fixed tag name.\<close>

definition staged :: "newTagsType \<Rightarrow> string \<Rightarrow> string \<Rightarrow> xmpTagType" where
  "staged desiredTags field tagName =
     (case desiredTags field of None \<Rightarrow> [] | Some desiredValue \<Rightarrow> [(tagName, desiredValue)])"

definition payload :: "newTagsType \<Rightarrow> xmpTagType" where
  "payload desiredTags =
     staged desiredTags ''creator'' ''XMP:Creator'' @
     staged desiredTags ''license'' ''XMP:License'' @
     staged desiredTags ''rights'' ''XMP:Rights''"

definition targeted :: "newTagsType \<Rightarrow> bool" where
  "targeted desiredTags = ({''creator'', ''license'', ''rights''} \<inter> dom desiredTags \<noteq> {})"

fun is_ReadRawCall :: "event \<Rightarrow> bool" where
  "is_ReadRawCall (ReadRawCall file args) = True"
| "is_ReadRawCall ev = False"

fun is_WriteCall :: "event \<Rightarrow> bool" where
  "is_WriteCall (WriteCall target tags args) = True"
| "is_WriteCall ev = False"

fun is_ConsoleLogRed :: "event \<Rightarrow> bool" where
  "is_ConsoleLogRed (ConsoleLogRed line) = True"
| "is_ConsoleLogRed ev = False"

fun is_ConsoleError :: "event \<Rightarrow> bool" where
  "is_ConsoleError (ConsoleError line) = True"
| "is_ConsoleError ev = False"

text \<open>The effects of one iteration of the loop: the warnings on the console, then the
  write request when the payload has a key.\<close>

definition file_events :: "newTagsType \<Rightarrow> string \<times> linkedFileType \<Rightarrow> event list" where
  "file_events desiredTags entry =
     map ConsoleLogRed (file_warnings desiredTags entry) @
     (if payload desiredTags = [] then []
      else [WriteCall (sourceFile (snd entry)) (payload desiredTags) [''-overwrite_original'']])"

text \<open>An entry as \<open>getTags\<close> builds it: filed under its own \<open>fileName\<close>, which is a base
  name.\<close>

definition own_entry :: "string \<times> linkedFileType \<Rightarrow> bool" where
  "own_entry entry = (fileName (snd entry) = fst entry \<and> basename (fst entry) = fst entry)"

text \<open>The three tracked fields: the key in \<open>desiredTags\<close>, the field of the current tags
  it is compared with, and the tag name it is written under.\<close>

definition tracked :: "(string \<times> (linkedFileType \<Rightarrow> jsval) \<times> string) list" where
  "tracked =
     [(''creator'', creator, ''XMP:Creator''),
      (''license'', license, ''XMP:License''),
      (''rights'', rights, ''XMP:Rights'')]"

text \<open>The specification's condition for a write, in its words: at least one targeted field
  has a non-empty tag value to write.\<close>

definition nonempty_value_targeted :: "newTagsType \<Rightarrow> bool" where
  "nonempty_value_targeted desiredTags =
     list_ex (\<lambda>field. case desiredTags field of
                         Some (Some desiredValue) \<Rightarrow> desiredValue \<noteq> []
                       | _ \<Rightarrow> False)
       [''creator'', ''license'', ''rights'']"

text \<open>The entry that \<open>getTags\<close> files for one raw tag structure.\<close>

definition linkedFile :: "RawTags \<Rightarrow> linkedFileType" where
  "linkedFile tags =
     \<lparr>fileName = basename (SourceFile tags), fileType = image_type,
      sourceFile = Some (SourceFile tags),
      creator = Creator tags, license = License tags, rights = Rights tags\<rparr>"

text \<open>Two raw tag structures of one file that agree on the reported path and on every
  tracked field whose key is present in \<open>desiredTags\<close>; they may differ on the others.\<close>

definition same_targeted :: "newTagsType \<Rightarrow> RawTags \<Rightarrow> RawTags \<Rightarrow> bool" where
  "same_targeted desiredTags raw raw' =
     (SourceFile raw' = SourceFile raw \<and>
      (desiredTags ''creator'' = None \<or> Creator raw' = Creator raw) \<and>
      (desiredTags ''license'' = None \<or> License raw' = License raw) \<and>
      (desiredTags ''rights'' = None \<or> Rights raw' = Rights raw))"

text \<open>The same for two entries of a mapping.\<close>

definition same_entry ::
  "newTagsType \<Rightarrow> string \<times> linkedFileType \<Rightarrow> string \<times> linkedFileType \<Rightarrow> bool" where
  "same_entry desiredTags entry entry' =
     (fst entry' = fst entry \<and>
      fileName (snd entry') = fileName (snd entry) \<and>
      sourceFile (snd entry') = sourceFile (snd entry) \<and>
      (desiredTags ''creator'' = None \<or> creator (snd entry') = creator (snd entry)) \<and>
      (desiredTags ''license'' = None \<or> license (snd entry') = license (snd entry)) \<and>
      (desiredTags ''rights'' = None \<or> rights (snd entry') = rights (snd entry)))"

text \<open>The elements of a list in the order of their first occurrence.\<close>

definition first_occurrences :: "'a list \<Rightarrow> 'a list" where
  "first_occurrences xs = rev (remdups (rev xs))"

section \<open>Sample inputs\<close>

text \<open>A tool that knows three files and reports the paths in absolute form; reading
  \<^verbatim>\<open>missing.jpg\<close> fails, and so does writing \<^verbatim>\<open>/pics/b.jpg\<close>.\<close>

definition sample_read :: "string \<Rightarrow> string list \<Rightarrow> error + RawTags" where
  "sample_read file args =
     (if file = ''a.jpg'' then
        Inr \<lparr>SourceFile = ''/pics/a.jpg'', Creator = Some ''Alice'', License = None,
             Rights = Some ''(c) Alice''\<rparr>
      else if file = ''b.jpg'' then
        Inr \<lparr>SourceFile = ''/pics/b.jpg'', Creator = Some ''Bob'', License = Some ''CC0'',
             Rights = None\<rparr>
      else if file = ''missing.jpg'' then Inl (Error ''File not found'')
      else Inr \<lparr>SourceFile = file, Creator = Some ''Alice'', License = None, Rights = None\<rparr>)"

definition sample_write :: "jsval \<Rightarrow> xmpTagType \<Rightarrow> string list \<Rightarrow> error + unit" where
  "sample_write target tags args =
     (if target = Some ''/pics/b.jpg'' then Inl (Error ''write failed'') else Inr ())"

definition sample_tool :: exiftool where
  "sample_tool = \<lparr>readRaw = sample_read, writeTags = sample_write\<rparr>"

text \<open>The sample tool with other creators and rights in the files.\<close>

definition other_read :: "string \<Rightarrow> string list \<Rightarrow> error + RawTags" where
  "other_read file args =
     (case sample_read file args of
        Inl e \<Rightarrow> Inl e
      | Inr raw \<Rightarrow> Inr (raw\<lparr>Creator := Some ''Somebody else'', Rights := None\<rparr>))"

definition other_tool :: exiftool where
  "other_tool = \<lparr>readRaw = other_read, writeTags = sample_write\<rparr>"

section \<open>Plain objects\<close>

lemma template_simps:
  "template None = ''undefined''" "template (Some s) = s"
  by (simp_all add: template_def)

lemma length_Object_entries: "length (Object_entries obj) = length obj"
  by (simp add: Object_entries_def sum_length_filter_compl)

lemma set_Object_entries: "set (Object_entries obj) = set obj"
  by (auto simp: Object_entries_def)

lemma Object_keys_empty_iff: "(Object_keys obj = []) = (obj = [])"
  using length_Object_entries [of obj] by (auto simp: Object_keys_def)

lemma basename_no_separator: "CHR ''/'' \<notin> set (basename p)"
  by (auto simp: basename_def dest: set_takeWhileD)

lemma basename_self:
  assumes "CHR ''/'' \<notin> set p"
  shows "basename p = p"
proof -
  have d: "dropWhile (\<lambda>c. c = CHR ''/'') (rev p) = rev p"
    using assms by (cases "rev p") auto
  have t: "takeWhile (\<lambda>c. c \<noteq> CHR ''/'') (rev p) = rev p"
    by (rule takeWhile_eq_all_conv[THEN iffD2]) (use assms in auto)
  show ?thesis unfolding basename_def d t by simp
qed

lemma basename_idem: "basename (basename p) = basename p"
  by (rule basename_self) (rule basename_no_separator)

lemma set_put: "set (put obj k v) \<subseteq> insert (k, v) (set obj)"
  by (induction obj) auto

lemma update_info_modified:
  "modified (update_info field current xmp newTags currentTags st) =
     modified st @ field_warning newTags (basename (fileName currentTags)) field current"
  by (cases "newTags field")
     (simp_all add: update_info_def hasOwnProperty_def get_prop_def field_warning_def
        warning_text_def Let_def)

lemma update_info_emitted:
  "emitted (update_info field current xmp newTags currentTags st) =
     emitted st @ map ConsoleLogRed
       (field_warning newTags (basename (fileName currentTags)) field current)"
  by (cases "newTags field")
     (simp_all add: update_info_def hasOwnProperty_def get_prop_def field_warning_def
        warning_text_def Let_def)

lemma update_info_promises:
  "promises (update_info field current xmp newTags currentTags st) = promises st"
  by (simp add: update_info_def Let_def)

lemma update_info_tagToWrite:
  "tagToWrite (update_info field current xmp newTags currentTags st) =
     (case newTags field of None \<Rightarrow> tagToWrite st
      | Some v \<Rightarrow> assign (tagToWrite st) xmp v)"
  by (cases "newTags field")
     (simp_all add: update_info_def hasOwnProperty_def get_prop_def Let_def)

lemma three_updates:
  "tagToWrite
     (update_info ''rights'' r ''XMP:Rights'' newTags cur
       (update_info ''license'' l ''XMP:License'' newTags cur
         (update_info ''creator'' c ''XMP:Creator'' newTags cur (st\<lparr>tagToWrite := []\<rparr>))))
   = payload newTags"
  by (cases "newTags ''creator''"; cases "newTags ''license''"; cases "newTags ''rights''")
     (simp_all add: update_info_tagToWrite payload_def staged_def assign_def)

lemma loop_body_modified:
  "modified (loop_body tool newTags st entry) =
     modified st @ file_warnings newTags (basename (fileName (snd entry)), snd entry)"
  by (simp add: loop_body_def Let_def update_info_modified file_warnings_def)

lemma loop_body_tagToWrite:
  "tagToWrite (loop_body tool newTags st entry) = payload newTags"
  by (simp add: loop_body_def Let_def three_updates)

lemma loop_body_emitted:
  "emitted (loop_body tool newTags st entry) =
     emitted st @ file_events newTags (basename (fileName (snd entry)), snd entry)"
  by (simp add: loop_body_def Let_def update_info_emitted three_updates Object_keys_empty_iff file_events_def file_warnings_def)

lemma loop_body_promises:
  "promises (loop_body tool newTags st entry) =
     promises st @
     (if payload newTags = [] then []
      else [writeTags tool (sourceFile (snd entry)) (payload newTags) [''-overwrite_original'']])"
  by (simp add: loop_body_def Let_def update_info_promises three_updates Object_keys_empty_iff)

lemma foldl_loop_body_modified:
  "list_all own_entry entries \<Longrightarrow>
   modified (foldl (loop_body tool newTags) st entries) =
     modified st @ concat (map (file_warnings newTags) entries)"
proof (induction entries arbitrary: st)
  case Nil
  show ?case by simp
next
  case (Cons entry entries)
  from Cons.prems have "basename (fileName (snd entry)) = fst entry"
    by (simp add: own_entry_def)
  with Cons show ?case by (simp add: loop_body_modified)
qed

lemma foldl_loop_body_emitted:
  "list_all own_entry entries \<Longrightarrow>
   emitted (foldl (loop_body tool newTags) st entries) =
     emitted st @ concat (map (file_events newTags) entries)"
proof (induction entries arbitrary: st)
  case Nil
  show ?case by simp
next
  case (Cons entry entries)
  from Cons.prems have "basename (fileName (snd entry)) = fst entry"
    by (simp add: own_entry_def)
  with Cons show ?case by (simp add: loop_body_emitted)
qed

lemma foldl_loop_body_promises:
  "promises (foldl (loop_body tool newTags) st entries) =
     promises st @
     (if payload newTags = [] then []
      else map (\<lambda>entry. writeTags tool (sourceFile (snd entry)) (payload newTags)
                  [''-overwrite_original'']) entries)"
  by (induction entries arbitrary: st) (simp_all add: loop_body_promises)

lemma own_entry_put:
  "list_all own_entry obj \<Longrightarrow> own_entry (k, v) \<Longrightarrow> list_all own_entry (put obj k v)"
  by (induction obj) auto

lemma own_entry_add_linkedFile:
  "list_all own_entry obj \<Longrightarrow> list_all own_entry (add_linkedFile obj rawTags)"
  by (simp add: add_linkedFile_def Let_def assign_def own_entry_put own_entry_def
        basename_idem)

lemma own_entry_foldl:
  "list_all own_entry obj \<Longrightarrow> list_all own_entry (foldl add_linkedFile obj allTags)"
  by (induction allTags arbitrary: obj) (simp_all add: own_entry_add_linkedFile)

lemma getTags_effects:
  "effects (getTags tool files) = map (\<lambda>file. ReadRawCall file [''all'', ''-xmp:all'']) files"
  by (simp add: getTags_def Let_def split: sum.split)

lemma getTags_own_entry:
  "returned (getTags tool files) = Inr fileTags \<Longrightarrow> list_all own_entry (Object_entries fileTags)"
proof -
  assume "returned (getTags tool files) = Inr fileTags"
  then obtain allTags where "fileTags = foldl add_linkedFile [] allTags"
    by (auto simp: getTags_def Let_def split: sum.splits)
  then have "list_all own_entry fileTags"
    by (simp add: own_entry_foldl)
  then show ?thesis
    by (simp add: list_all_iff set_Object_entries)
qed

lemma writeImageTags_returned:
  assumes "returned (getTags tool files) = Inr fileTags"
  shows "returned (writeImageTags tool files newTags) =
           Inr (concat (map (file_warnings newTags) (Object_entries fileTags)))"
  using assms getTags_own_entry [OF assms]
  by (simp add: writeImageTags_def Let_def foldl_loop_body_modified split: sum.split)

lemma Promise_all_rejected:
  "(\<exists>e. Promise_all ps = Inl e) = (\<exists>e. Inl e \<in> set ps)"
  by (induction ps) (auto split: sum.splits)

lemma Promise_all_reason:
  "Promise_all ps = Inl e \<Longrightarrow> Inl e \<in> set ps"
  by (induction ps) (auto split: sum.splits)

lemma Promise_all_fulfilled:
  "Promise_all ps = Inr vs \<Longrightarrow> ps = map Inr vs"
  by (induction ps arbitrary: vs) (auto split: sum.splits)

lemma writeImageTags_effects:
  assumes "returned (getTags tool files) = Inr fileTags"
  shows "effects (writeImageTags tool files newTags) =
           map (\<lambda>file. ReadRawCall file [''all'', ''-xmp:all'']) files @
           concat (map (file_events newTags) (Object_entries fileTags)) @
           (case Promise_all
                   (if payload newTags = [] then []
                    else map (\<lambda>entry. writeTags tool (sourceFile (snd entry)) (payload newTags)
                                [''-overwrite_original'']) (Object_entries fileTags)) of
              Inl err \<Rightarrow> [ConsoleError (message err)]
            | Inr done \<Rightarrow> [])"
  using assms getTags_own_entry [OF assms]
  by (simp add: writeImageTags_def Let_def foldl_loop_body_emitted foldl_loop_body_promises
        getTags_effects split: sum.split)

lemma writeImageTags_rejected:
  assumes "returned (getTags tool files) = Inl e"
  shows "writeImageTags tool files newTags =
           \<lparr>returned = Inl e, effects = map (\<lambda>file. ReadRawCall file [''all'', ''-xmp:all'']) files\<rparr>"
  using assms by (simp add: writeImageTags_def Let_def getTags_effects)

section \<open>Sample runs\<close>

lemma sample_getTags_ab:
  "returned (getTags sample_tool [''a.jpg'', ''b.jpg'']) =
     Inr [(''a.jpg'', \<lparr>fileName = ''a.jpg'', fileType = image_type,
             sourceFile = Some ''/pics/a.jpg'', creator = Some ''Alice'', license = None,
             rights = Some ''(c) Alice''\<rparr>),
          (''b.jpg'', \<lparr>fileName = ''b.jpg'', fileType = image_type,
             sourceFile = Some ''/pics/b.jpg'', creator = Some ''Bob'', license = Some ''CC0'',
             rights = None\<rparr>)]"
  by (simp add: getTags_def sample_tool_def sample_read_def add_linkedFile_def
        parseJSON_stringify_def basename_def assign_def Let_def)

lemma not_index_ab: "\<not> is_array_index ''a.jpg''" "\<not> is_array_index ''b.jpg''"
  by (simp_all add: is_array_index_def is_digit_def)

lemma sample_entries_ab:
  "Object_entries [(''a.jpg'', x), (''b.jpg'', y)] = [(''a.jpg'', x), (''b.jpg'', y)]"
  by (simp add: Object_entries_def not_index_ab)

section \<open>The warnings returned by \<^verbatim>\<open>writeImageTags\<close>\<close>

text \<open>
  Claim C1. When the read phase succeeds with the mapping \<open>fileTags\<close>, the value returned
  by \<open>writeImageTags\<close> is exactly this list: for every entry of the mapping, in the order
  of \<^verbatim>\<open>Object.entries\<close>, and for each of the fields creator, license, rights, nothing
  when the key is absent from \<open>desiredTags\<close>, and otherwise the one string
  \<^verbatim>\<open>WARNING: Overwriting <baseName> existing <field>: <currentValue> with <desiredValue>\<close>
  if and only if the current value differs from the desired one (\<^verbatim>\<open>undefined\<close>, here
  \<open>None\<close>, differs from every string and prints as \<^verbatim>\<open>undefined\<close>). The base name is
  the key of the entry.
\<close>

theorem warnings_exactly_on_difference:
  assumes "returned (getTags tool files) = Inr fileTags"
  shows "returned (writeImageTags tool files desiredTags) =
    Inr (concat (map (\<lambda>(baseName, currentTags).
           concat (map (\<lambda>(field, currentValue).
             case desiredTags field of
               None \<Rightarrow> []
             | Some desiredValue \<Rightarrow>
                 if currentValue \<noteq> desiredValue
                 then [''WARNING: Overwriting '' @ baseName @ '' existing '' @ field @ '': '' @
                       template currentValue @ '' with '' @ template desiredValue]
                 else [])
             [(''creator'', creator currentTags), (''license'', license currentTags),
              (''rights'', rights currentTags)]))
         (Object_entries fileTags)))"
proof -
  have "file_warnings desiredTags =
        (\<lambda>(baseName, currentTags).
           concat (map (\<lambda>(field, currentValue).
             case desiredTags field of
               None \<Rightarrow> []
             | Some desiredValue \<Rightarrow>
                 if currentValue \<noteq> desiredValue
                 then [''WARNING: Overwriting '' @ baseName @ '' existing '' @ field @ '': '' @
                       template currentValue @ '' with '' @ template desiredValue]
                 else [])
             [(''creator'', creator currentTags), (''license'', license currentTags),
              (''rights'', rights currentTags)]))"
    by (rule ext) (simp add: file_warnings_def field_warning_def warning_text_def split_def
          split: option.split)
  with writeImageTags_returned [OF assms, of desiredTags] show ?thesis by simp
qed

text \<open>Two files, all three keys desired: creator differs on both files, license is unset
  on the first and already equal on the second, and rights is desired \<^verbatim>\<open>undefined\<close>,
  which differs from the first file's value and equals the second's.\<close>

theorem warnings_exactly_on_difference_witness:
  "returned (getTags sample_tool [''a.jpg'', ''b.jpg'']) =
     Inr [(''a.jpg'', \<lparr>fileName = ''a.jpg'', fileType = image_type,
             sourceFile = Some ''/pics/a.jpg'', creator = Some ''Alice'', license = None,
             rights = Some ''(c) Alice''\<rparr>),
          (''b.jpg'', \<lparr>fileName = ''b.jpg'', fileType = image_type,
             sourceFile = Some ''/pics/b.jpg'', creator = Some ''Bob'', license = Some ''CC0'',
             rights = None\<rparr>)] \<and>
   returned (writeImageTags sample_tool [''a.jpg'', ''b.jpg'']
              [''creator'' \<mapsto> Some ''Carol'', ''license'' \<mapsto> Some ''CC0'', ''rights'' \<mapsto> None]) =
     Inr [''WARNING: Overwriting a.jpg existing creator: Alice with Carol'',
          ''WARNING: Overwriting a.jpg existing license: undefined with CC0'',
          ''WARNING: Overwriting a.jpg existing rights: (c) Alice with undefined'',
          ''WARNING: Overwriting b.jpg existing creator: Bob with Carol'']"
  using sample_getTags_ab warnings_exactly_on_difference [OF sample_getTags_ab,
    of "[''creator'' \<mapsto> Some ''Carol'', ''license'' \<mapsto> Some ''CC0'', ''rights'' \<mapsto> None]"]
  by (simp add: sample_entries_ab template_simps)

section \<open>The write requests\<close>

lemma targeted_payload: "targeted desiredTags = (payload desiredTags \<noteq> [])"
  by (cases "desiredTags ''creator''"; cases "desiredTags ''license''";
      cases "desiredTags ''rights''")
     (auto simp: targeted_def payload_def staged_def)

lemma filter_WriteCall_file_events:
  "filter is_WriteCall (concat (map (file_events desiredTags) entries)) =
     (if payload desiredTags = [] then []
      else map (\<lambda>entry. WriteCall (sourceFile (snd entry)) (payload desiredTags)
                  [''-overwrite_original'']) entries)"
  by (induction entries) (simp_all add: file_events_def filter_empty_conv)

lemma writeImageTags_write_calls:
  assumes "returned (getTags tool files) = Inr fileTags"
  shows "filter is_WriteCall (effects (writeImageTags tool files desiredTags)) =
           (if payload desiredTags = [] then []
            else map (\<lambda>entry. WriteCall (sourceFile (snd entry)) (payload desiredTags)
                        [''-overwrite_original'']) (Object_entries fileTags))"
  by (auto simp: writeImageTags_effects [OF assms] filter_WriteCall_file_events
        filter_empty_conv split: sum.split)

lemma add_linkedFile_linkedFile:
  "add_linkedFile obj tags = assign obj (basename (SourceFile tags)) (linkedFile tags)"
  by (simp add: add_linkedFile_def linkedFile_def parseJSON_stringify_def Let_def)

lemma snd_foldl_add_linkedFile:
  "snd ` set (foldl add_linkedFile obj allTags) \<subseteq> snd ` set obj \<union> linkedFile ` set allTags"
proof (induction allTags arbitrary: obj)
  case Nil
  show ?case by simp
next
  case (Cons t ts)
  have "set (add_linkedFile obj t) \<subseteq> insert (basename (SourceFile t), linkedFile t) (set obj)"
    using set_put [of obj "basename (SourceFile t)" "linkedFile t"]
    by (auto simp: add_linkedFile_linkedFile assign_def)
  then have "snd ` set (add_linkedFile obj t) \<subseteq> insert (linkedFile t) (snd ` set obj)"
    by force
  with Cons.IH [of "add_linkedFile obj t"] show ?case by auto
qed

lemma getTags_fulfilled:
  assumes "returned (getTags tool files) = Inr fileTags"
  shows "\<exists>allTags. map (\<lambda>file. readRaw tool file [''all'', ''-xmp:all'']) files = map Inr allTags
           \<and> fileTags = foldl add_linkedFile [] allTags"
  using assms
  by (auto simp: getTags_def Let_def split: sum.splits dest: Promise_all_fulfilled)

lemma getTags_entry_origin:
  assumes "returned (getTags tool files) = Inr fileTags" and "entry \<in> set fileTags"
  shows "\<exists>file\<in>set files. \<exists>tags. readRaw tool file [''all'', ''-xmp:all''] = Inr tags
           \<and> snd entry = linkedFile tags"
proof -
  from getTags_fulfilled [OF assms(1)] obtain allTags where
    m: "map (\<lambda>file. readRaw tool file [''all'', ''-xmp:all'']) files = map Inr allTags"
    and f: "fileTags = foldl add_linkedFile [] allTags" by blast
  from assms(2) f snd_foldl_add_linkedFile [of "[]" allTags]
  obtain tags where t: "tags \<in> set allTags" "snd entry = linkedFile tags" by auto
  from t(1) have "Inr tags \<in> set (map (\<lambda>file. readRaw tool file [''all'', ''-xmp:all'']) files)"
    by (simp add: m)
  then obtain f where "f \<in> set files" "readRaw tool f [''all'', ''-xmp:all''] = Inr tags"
    by auto
  with t(2) show ?thesis by blast
qed

lemma sample_getTags_xy:
  "returned (getTags sample_tool [''x.jpg'', ''dir/y.jpg'']) =
     Inr [(''x.jpg'', \<lparr>fileName = ''x.jpg'', fileType = image_type,
             sourceFile = Some ''x.jpg'', creator = Some ''Alice'', license = None,
             rights = None\<rparr>),
          (''y.jpg'', \<lparr>fileName = ''y.jpg'', fileType = image_type,
             sourceFile = Some ''dir/y.jpg'', creator = Some ''Alice'', license = None,
             rights = None\<rparr>)]"
  by (simp add: getTags_def sample_tool_def sample_read_def add_linkedFile_def
        parseJSON_stringify_def basename_def assign_def Let_def)

lemma not_index_xy: "\<not> is_array_index ''x.jpg''" "\<not> is_array_index ''y.jpg''"
  by (simp_all add: is_array_index_def is_digit_def)

lemma sample_entries_xy:
  "Object_entries [(''x.jpg'', x), (''y.jpg'', y)] = [(''x.jpg'', x), (''y.jpg'', y)]"
  by (simp add: Object_entries_def not_index_xy)

text \<open>
  Claim C2. When the read phase succeeds, the write requests are, for every entry of the
  mapping in turn, one request carrying the payload, as soon as the payload has a key. The
  payload holds, for each of the keys creator, license, rights present in \<open>desiredTags\<close>,
  the desired value under \<^verbatim>\<open>XMP:Creator\<close>, \<^verbatim>\<open>XMP:License\<close>, \<^verbatim>\<open>XMP:Rights\<close>; it
  does not depend on the current values. In particular, when every desired value equals the
  current one on every file, no warning is returned and there is still one write request per
  file, provided at least one of the three keys is present.
\<close>

theorem desired_values_always_staged:
  assumes "returned (getTags tool files) = Inr fileTags"
  shows "filter is_WriteCall (effects (writeImageTags tool files desiredTags)) =
           (if payload desiredTags = [] then []
            else map (\<lambda>entry. WriteCall (sourceFile (snd entry)) (payload desiredTags)
                        [''-overwrite_original'']) (Object_entries fileTags))
         \<and> payload desiredTags =
             (case desiredTags ''creator'' of None \<Rightarrow> [] | Some v \<Rightarrow> [(''XMP:Creator'', v)]) @
             (case desiredTags ''license'' of None \<Rightarrow> [] | Some v \<Rightarrow> [(''XMP:License'', v)]) @
             (case desiredTags ''rights'' of None \<Rightarrow> [] | Some v \<Rightarrow> [(''XMP:Rights'', v)])
         \<and> ((\<forall>entry\<in>set fileTags.
                (\<forall>v. desiredTags ''creator'' = Some v \<longrightarrow> creator (snd entry) = v) \<and>
                (\<forall>v. desiredTags ''license'' = Some v \<longrightarrow> license (snd entry) = v) \<and>
                (\<forall>v. desiredTags ''rights'' = Some v \<longrightarrow> rights (snd entry) = v)) \<longrightarrow>
              returned (writeImageTags tool files desiredTags) = Inr [] \<and>
              length (filter is_WriteCall (effects (writeImageTags tool files desiredTags))) =
                (if targeted desiredTags then length fileTags else 0))"
proof (intro conjI impI)
  show "filter is_WriteCall (effects (writeImageTags tool files desiredTags)) =
           (if payload desiredTags = [] then []
            else map (\<lambda>entry. WriteCall (sourceFile (snd entry)) (payload desiredTags)
                        [''-overwrite_original'']) (Object_entries fileTags))"
    by (rule writeImageTags_write_calls [OF assms])
  show "payload desiredTags =
             (case desiredTags ''creator'' of None \<Rightarrow> [] | Some v \<Rightarrow> [(''XMP:Creator'', v)]) @
             (case desiredTags ''license'' of None \<Rightarrow> [] | Some v \<Rightarrow> [(''XMP:License'', v)]) @
             (case desiredTags ''rights'' of None \<Rightarrow> [] | Some v \<Rightarrow> [(''XMP:Rights'', v)])"
    by (simp add: payload_def staged_def)
next
  assume same: "\<forall>entry\<in>set fileTags.
                (\<forall>v. desiredTags ''creator'' = Some v \<longrightarrow> creator (snd entry) = v) \<and>
                (\<forall>v. desiredTags ''license'' = Some v \<longrightarrow> license (snd entry) = v) \<and>
                (\<forall>v. desiredTags ''rights'' = Some v \<longrightarrow> rights (snd entry) = v)"
  have "file_warnings desiredTags entry = []" if "entry \<in> set (Object_entries fileTags)" for entry
    using that same
    by (auto simp: set_Object_entries file_warnings_def field_warning_def split: option.split)
  then have "concat (map (file_warnings desiredTags) (Object_entries fileTags)) = []"
    by simp
  then show "returned (writeImageTags tool files desiredTags) = Inr []"
    by (simp add: writeImageTags_returned [OF assms])
  show "length (filter is_WriteCall (effects (writeImageTags tool files desiredTags))) =
          (if targeted desiredTags then length fileTags else 0)"
    by (simp add: writeImageTags_write_calls [OF assms] targeted_payload length_Object_entries)
qed

text \<open>Two files whose creator already is the desired one and whose rights are unset as
  desired: no warning, two write requests.\<close>

theorem desired_values_always_staged_witness:
  "returned (getTags sample_tool [''x.jpg'', ''dir/y.jpg'']) =
     Inr [(''x.jpg'', \<lparr>fileName = ''x.jpg'', fileType = image_type,
             sourceFile = Some ''x.jpg'', creator = Some ''Alice'', license = None,
             rights = None\<rparr>),
          (''y.jpg'', \<lparr>fileName = ''y.jpg'', fileType = image_type,
             sourceFile = Some ''dir/y.jpg'', creator = Some ''Alice'', license = None,
             rights = None\<rparr>)] \<and>
   returned (writeImageTags sample_tool [''x.jpg'', ''dir/y.jpg'']
              [''creator'' \<mapsto> Some ''Alice'', ''rights'' \<mapsto> None]) = Inr [] \<and>
   filter is_WriteCall (effects (writeImageTags sample_tool [''x.jpg'', ''dir/y.jpg'']
              [''creator'' \<mapsto> Some ''Alice'', ''rights'' \<mapsto> None])) =
     [WriteCall (Some ''x.jpg'') [(''XMP:Creator'', Some ''Alice''), (''XMP:Rights'', None)]
        [''-overwrite_original''],
      WriteCall (Some ''dir/y.jpg'') [(''XMP:Creator'', Some ''Alice''), (''XMP:Rights'', None)]
        [''-overwrite_original'']]"
  using sample_getTags_xy desired_values_always_staged [OF sample_getTags_xy,
    of "[''creator'' \<mapsto> Some ''Alice'', ''rights'' \<mapsto> None]"]
  by (simp add: sample_entries_xy payload_def staged_def)

lemma WriteCall_in_effects:
  assumes "returned (getTags tool files) = Inr fileTags"
  shows "(WriteCall target tags args \<in> set (effects (writeImageTags tool files desiredTags))) =
           (payload desiredTags \<noteq> [] \<and> tags = payload desiredTags \<and>
            args = [''-overwrite_original''] \<and>
            (\<exists>entry\<in>set fileTags. target = sourceFile (snd entry)))"
proof -
  have "(WriteCall target tags args \<in> set (effects (writeImageTags tool files desiredTags))) =
        (WriteCall target tags args \<in>
           set (filter is_WriteCall (effects (writeImageTags tool files desiredTags))))"
    by simp
  also have "\<dots> = (payload desiredTags \<noteq> [] \<and> tags = payload desiredTags \<and>
            args = [''-overwrite_original''] \<and>
            (\<exists>entry\<in>set fileTags. target = sourceFile (snd entry)))"
    unfolding writeImageTags_write_calls [OF assms]
    by (auto simp: set_Object_entries)
  finally show ?thesis .
qed

lemma sample_getTags_a:
  "returned (getTags sample_tool [''a.jpg'']) =
     Inr [(''a.jpg'', \<lparr>fileName = ''a.jpg'', fileType = image_type,
             sourceFile = Some ''/pics/a.jpg'', creator = Some ''Alice'', license = None,
             rights = Some ''(c) Alice''\<rparr>)]"
  by (simp add: getTags_def sample_tool_def sample_read_def add_linkedFile_def
        parseJSON_stringify_def basename_def assign_def Let_def)

lemma sample_entries_a: "Object_entries [(''a.jpg'', x)] = [(''a.jpg'', x)]"
  by (simp add: Object_entries_def not_index_ab)

text \<open>
  Claim C3, as stated, fails: a write request is attempted although no targeted field has a
  non-empty tag value to write. With \<^verbatim>\<open>{creator: undefined, license: ""}\<close> the payload
  has two keys, and \<^verbatim>\<open>Object.keys(tagToWrite).length\<close> counts keys, not values.
\<close>

theorem write_without_nonempty_value:
  "filter is_WriteCall (effects (writeImageTags sample_tool [''a.jpg'']
       [''creator'' \<mapsto> None, ''license'' \<mapsto> Some ''''])) =
     [WriteCall (Some ''/pics/a.jpg'') [(''XMP:Creator'', None), (''XMP:License'', Some '''')]
        [''-overwrite_original'']]
   \<and> \<not> nonempty_value_targeted [''creator'' \<mapsto> None, ''license'' \<mapsto> Some '''']"
  by (simp add: writeImageTags_write_calls [OF sample_getTags_a] sample_entries_a
        payload_def staged_def nonempty_value_targeted_def)

text \<open>
  Claim C3, amended. When the read phase succeeds: a write request is attempted for a file
  of the mapping if and only if at least one of the keys creator, license, rights is present
  in \<open>desiredTags\<close>, whatever its value; every request carries the payload, which then has
  a key, passes \<^verbatim>\<open>-overwrite_original\<close>, and targets the path that the tool reported
  as \<^verbatim>\<open>SourceFile\<close> for one of the input files; and when none of the three keys is
  present there is no write request.
\<close>

theorem write_request_iff_key_present:
  assumes "returned (getTags tool files) = Inr fileTags"
  shows "(\<forall>entry\<in>set fileTags.
           (\<exists>tags args. WriteCall (sourceFile (snd entry)) tags args
                          \<in> set (effects (writeImageTags tool files desiredTags)))
           = ({''creator'', ''license'', ''rights''} \<inter> dom desiredTags \<noteq> {}))
       \<and> (\<forall>target tags args.
            WriteCall target tags args \<in> set (effects (writeImageTags tool files desiredTags)) \<longrightarrow>
              tags = payload desiredTags \<and> tags \<noteq> [] \<and> args = [''-overwrite_original''] \<and>
              (\<exists>file\<in>set files. \<exists>raw.
                 readRaw tool file [''all'', ''-xmp:all''] = Inr raw \<and>
                 target = Some (SourceFile raw)))
       \<and> ({''creator'', ''license'', ''rights''} \<inter> dom desiredTags = {} \<longrightarrow>
            filter is_WriteCall (effects (writeImageTags tool files desiredTags)) = [])"
proof -
  have 1: "(\<exists>tags args. WriteCall (sourceFile (snd entry)) tags args
                          \<in> set (effects (writeImageTags tool files desiredTags)))
           = ({''creator'', ''license'', ''rights''} \<inter> dom desiredTags \<noteq> {})"
    if "entry \<in> set fileTags" for entry
    using that targeted_payload [of desiredTags]
    by (auto simp: WriteCall_in_effects [OF assms] targeted_def)
  have 2: "tags = payload desiredTags \<and> tags \<noteq> [] \<and> args = [''-overwrite_original''] \<and>
              (\<exists>file\<in>set files. \<exists>raw.
                 readRaw tool file [''all'', ''-xmp:all''] = Inr raw \<and>
                 target = Some (SourceFile raw))"
    if w: "WriteCall target tags args \<in> set (effects (writeImageTags tool files desiredTags))"
    for target tags args
  proof -
    from w obtain entry where e: "entry \<in> set fileTags" "target = sourceFile (snd entry)"
      by (auto simp: WriteCall_in_effects [OF assms])
    from getTags_entry_origin [OF assms e(1)] obtain f raw where
      "f \<in> set files" "readRaw tool f [''all'', ''-xmp:all''] = Inr raw"
      "snd entry = linkedFile raw"
      by blast
    with e(2) have "\<exists>file\<in>set files. \<exists>raw.
                   readRaw tool file [''all'', ''-xmp:all''] = Inr raw \<and>
                   target = Some (SourceFile raw)"
      by (auto simp: linkedFile_def)
    with w show ?thesis
      by (simp add: WriteCall_in_effects [OF assms])
  qed
  have 3: "filter is_WriteCall (effects (writeImageTags tool files desiredTags)) = []"
    if "{''creator'', ''license'', ''rights''} \<inter> dom desiredTags = {}"
  proof -
    from that have "payload desiredTags = []"
      using targeted_payload [of desiredTags] by (simp add: targeted_def)
    then show ?thesis
      by (simp add: writeImageTags_write_calls [OF assms])
  qed
  show ?thesis
    by (intro 1 2 3 conjI ballI allI impI; assumption)
qed

text \<open>The input file \<^verbatim>\<open>a.jpg\<close> is reported as \<^verbatim>\<open>/pics/a.jpg\<close>, and this is the
  target; with an empty \<open>desiredTags\<close> nothing is written.\<close>

theorem write_request_iff_key_present_witness:
  "returned (getTags sample_tool [''a.jpg'']) =
     Inr [(''a.jpg'', \<lparr>fileName = ''a.jpg'', fileType = image_type,
             sourceFile = Some ''/pics/a.jpg'', creator = Some ''Alice'', license = None,
             rights = Some ''(c) Alice''\<rparr>)]
   \<and> (\<exists>tags args. WriteCall (Some ''/pics/a.jpg'') tags args
         \<in> set (effects (writeImageTags sample_tool [''a.jpg'']
                  [''creator'' \<mapsto> None, ''license'' \<mapsto> Some ''''])))
   \<and> filter is_WriteCall (effects (writeImageTags sample_tool [''a.jpg''] Map.empty)) = []"
  using sample_getTags_a
    write_request_iff_key_present [OF sample_getTags_a,
      of "[''creator'' \<mapsto> None, ''license'' \<mapsto> Some '''']"]
    write_request_iff_key_present [OF sample_getTags_a, of Map.empty]
  by simp

section \<open>Key existence\<close>

lemma file_warnings_tracked:
  "file_warnings desiredTags entry =
     concat (map (\<lambda>(f, current, tagName).
                    field_warning desiredTags (fst entry) f (current (snd entry))) tracked)"
  by (simp add: file_warnings_def tracked_def)

lemma payload_tracked:
  "payload desiredTags =
     concat (map (\<lambda>(f, current, tagName). staged desiredTags f tagName) tracked)"
  by (simp add: payload_def tracked_def)

lemma field_warning_upd:
  "field_warning (desiredTags(field \<mapsto> d)) b f c =
     (if f = field then (if c \<noteq> d then [warning_text b f c d] else [])
      else field_warning desiredTags b f c)"
  "field_warning (desiredTags(field := None)) b f c =
     (if f = field then [] else field_warning desiredTags b f c)"
  by (simp_all add: field_warning_def)

lemma staged_upd:
  "staged (desiredTags(field \<mapsto> d)) f t =
     (if f = field then [(t, d)] else staged desiredTags f t)"
  "staged (desiredTags(field := None)) f t =
     (if f = field then [] else staged desiredTags f t)"
  by (simp_all add: staged_def)

lemma payload_present:
  "(field, current, tagName) \<in> set tracked \<Longrightarrow> payload (desiredTags(field \<mapsto> d)) \<noteq> []"
  by (auto simp: tracked_def payload_def staged_def)

lemma tracked_cases:
  assumes "(field, current, tagName) \<in> set tracked"
  obtains "field = ''creator''" "current = creator" "tagName = ''XMP:Creator''"
    | "field = ''license''" "current = license" "tagName = ''XMP:License''"
    | "field = ''rights''" "current = rights" "tagName = ''XMP:Rights''"
  using assms by (auto simp: tracked_def)

lemma file_warnings_present:
  assumes "(field, current, tagName) \<in> set tracked"
  shows "file_warnings (desiredTags(field \<mapsto> None)) =
     (\<lambda>entry. concat (map (\<lambda>(f, cur, tag).
                  if f = field
                  then (if cur (snd entry) \<noteq> None
                        then [warning_text (fst entry) f (cur (snd entry)) None] else [])
                  else field_warning desiredTags (fst entry) f (cur (snd entry))) tracked))"
  using assms
  by (elim tracked_cases; intro ext; simp add: file_warnings_def field_warning_upd tracked_def)

lemma file_warnings_absent:
  assumes "(field, current, tagName) \<in> set tracked"
  shows "file_warnings (desiredTags(field := None)) =
     (\<lambda>entry. concat (map (\<lambda>(f, cur, tag).
                  if f = field then []
                  else field_warning desiredTags (fst entry) f (cur (snd entry))) tracked))"
  using assms
  by (elim tracked_cases; intro ext; simp add: file_warnings_def field_warning_upd tracked_def)


text \<open>
  Claim C4. Whether a field is targeted is decided by the existence of its key. For each of
  the three tracked fields, when the read phase succeeds: with the key present and its value
  \<^verbatim>\<open>undefined\<close> the comparison is performed (the field's warning is returned exactly for
  the files whose current value is not \<^verbatim>\<open>undefined\<close>) and the value is staged (every
  file gets a write request whose payload holds the tag name with the value
  \<^verbatim>\<open>undefined\<close>); with the key absent the field gives no warning and its tag name is in
  no payload. The other two fields behave as \<open>desiredTags\<close> says in both cases.
\<close>

theorem key_existence_decides_targeting:
  assumes "returned (getTags tool files) = Inr fileTags"
    and "(field, current, tagName) \<in> set tracked"
  shows "returned (writeImageTags tool files (desiredTags(field \<mapsto> None))) =
           Inr (concat (map (\<lambda>entry. concat (map (\<lambda>(f, cur, tag).
                  if f = field
                  then (if cur (snd entry) \<noteq> None
                        then [warning_text (fst entry) f (cur (snd entry)) None] else [])
                  else field_warning desiredTags (fst entry) f (cur (snd entry))) tracked))
                (Object_entries fileTags)))
       \<and> filter is_WriteCall (effects (writeImageTags tool files (desiredTags(field \<mapsto> None)))) =
           map (\<lambda>entry. WriteCall (sourceFile (snd entry))
                  (concat (map (\<lambda>(f, cur, tag).
                     if f = field then [(tag, None)] else staged desiredTags f tag) tracked))
                  [''-overwrite_original'']) (Object_entries fileTags)
       \<and> returned (writeImageTags tool files (desiredTags(field := None))) =
           Inr (concat (map (\<lambda>entry. concat (map (\<lambda>(f, cur, tag).
                  if f = field then []
                  else field_warning desiredTags (fst entry) f (cur (snd entry))) tracked))
                (Object_entries fileTags)))
       \<and> (\<forall>target tags args.
            WriteCall target tags args
              \<in> set (effects (writeImageTags tool files (desiredTags(field := None)))) \<longrightarrow>
            tagName \<notin> fst ` set tags)"
proof -
  let ?present = "desiredTags(field \<mapsto> None)"
  let ?absent = "desiredTags(field := None)"
  have 1: "returned (writeImageTags tool files ?present) =
           Inr (concat (map (\<lambda>entry. concat (map (\<lambda>(f, cur, tag).
                  if f = field
                  then (if cur (snd entry) \<noteq> None
                        then [warning_text (fst entry) f (cur (snd entry)) None] else [])
                  else field_warning desiredTags (fst entry) f (cur (snd entry))) tracked))
                (Object_entries fileTags)))"
    by (simp only: writeImageTags_returned [OF assms(1)] file_warnings_present [OF assms(2)])
  have 2: "filter is_WriteCall (effects (writeImageTags tool files ?present)) =
           map (\<lambda>entry. WriteCall (sourceFile (snd entry))
                  (concat (map (\<lambda>(f, cur, tag).
                     if f = field then [(tag, None)] else staged desiredTags f tag) tracked))
                  [''-overwrite_original'']) (Object_entries fileTags)"
  proof -
    have p: "payload ?present =
               concat (map (\<lambda>(f, cur, tag).
                             if f = field then [(tag, None)] else staged desiredTags f tag) tracked)"
      by (simp add: payload_tracked staged_upd tracked_def)
    have ne: "payload ?present \<noteq> []"
      by (rule payload_present [OF assms(2)])
    have "filter is_WriteCall (effects (writeImageTags tool files ?present)) =
            map (\<lambda>entry. WriteCall (sourceFile (snd entry)) (payload ?present)
                   [''-overwrite_original'']) (Object_entries fileTags)"
      by (simp only: writeImageTags_write_calls [OF assms(1)] ne if_False)
    then show ?thesis by (simp only: p)
  qed
  have 3: "returned (writeImageTags tool files ?absent) =
           Inr (concat (map (\<lambda>entry. concat (map (\<lambda>(f, cur, tag).
                  if f = field then []
                  else field_warning desiredTags (fst entry) f (cur (snd entry))) tracked))
                (Object_entries fileTags)))"
    by (simp only: writeImageTags_returned [OF assms(1)] file_warnings_absent [OF assms(2)])
  have "tagName \<notin> fst ` set (payload ?absent)"
    using assms(2)
    by (elim tracked_cases) (auto simp: payload_def staged_upd staged_def split: option.splits)
  then have 4: "\<forall>target tags args.
            WriteCall target tags args \<in> set (effects (writeImageTags tool files ?absent)) \<longrightarrow>
            tagName \<notin> fst ` set tags"
    by (simp add: WriteCall_in_effects [OF assms(1)])
  from 1 2 3 4 show ?thesis by (intro conjI)
qed

text \<open>\<^verbatim>\<open>{rights: undefined}\<close> on two files, one with rights set and one without, and
  the empty object on the same files.\<close>

theorem key_existence_decides_targeting_witness:
  "returned (getTags sample_tool [''a.jpg'', ''b.jpg'']) =
     Inr [(''a.jpg'', \<lparr>fileName = ''a.jpg'', fileType = image_type,
             sourceFile = Some ''/pics/a.jpg'', creator = Some ''Alice'', license = None,
             rights = Some ''(c) Alice''\<rparr>),
          (''b.jpg'', \<lparr>fileName = ''b.jpg'', fileType = image_type,
             sourceFile = Some ''/pics/b.jpg'', creator = Some ''Bob'', license = Some ''CC0'',
             rights = None\<rparr>)]
   \<and> (''rights'', rights, ''XMP:Rights'') \<in> set tracked
   \<and> returned (writeImageTags sample_tool [''a.jpg'', ''b.jpg''] [''rights'' \<mapsto> None]) =
       Inr [''WARNING: Overwriting a.jpg existing rights: (c) Alice with undefined'']
   \<and> filter is_WriteCall
         (effects (writeImageTags sample_tool [''a.jpg'', ''b.jpg''] [''rights'' \<mapsto> None])) =
       [WriteCall (Some ''/pics/a.jpg'') [(''XMP:Rights'', None)] [''-overwrite_original''],
        WriteCall (Some ''/pics/b.jpg'') [(''XMP:Rights'', None)] [''-overwrite_original'']]
   \<and> returned (writeImageTags sample_tool [''a.jpg'', ''b.jpg''] Map.empty) = Inr []"
proof -
  have t: "(''rights'', rights, ''XMP:Rights'') \<in> set tracked"
    by (simp add: tracked_def)
  from key_existence_decides_targeting [OF sample_getTags_ab t, of Map.empty]
  show ?thesis
    using sample_getTags_ab t
    by (simp add: sample_entries_ab tracked_def field_warning_def staged_def
          warning_text_def template_simps)
qed

section \<open>Failures\<close>

lemma getTags_rejected:
  assumes "\<exists>file\<in>set files. \<exists>e. readRaw tool file [''all'', ''-xmp:all''] = Inl e"
  shows "\<exists>e. (\<exists>file\<in>set files. readRaw tool file [''all'', ''-xmp:all''] = Inl e)
             \<and> returned (getTags tool files) = Inl e"
proof -
  let ?ps = "map (\<lambda>file. readRaw tool file [''all'', ''-xmp:all'']) files"
  from assms have "\<exists>e. Inl e \<in> set ?ps" by force
  then obtain e where e: "Promise_all ?ps = Inl e"
    using Promise_all_rejected [of ?ps] by blast
  from Promise_all_reason [OF e] have "\<exists>file\<in>set files. readRaw tool file [''all'', ''-xmp:all''] = Inl e"
    by auto
  moreover from e have "returned (getTags tool files) = Inl e"
    by (simp add: getTags_def Let_def)
  ultimately show ?thesis by blast
qed

text \<open>
  Claim C6. When the read of at least one file of the batch fails, \<open>getTags\<close> is rejected
  with the failure of one of the failing files (that failure, when one file fails) and gives
  no mapping; \<open>writeImageTags\<close> is rejected with the same failure, and its only effects are
  the read calls: no write request is issued, no warning is logged or returned.
\<close>

theorem read_failure_aborts_batch:
  assumes "\<exists>file\<in>set files. \<exists>e. readRaw tool file [''all'', ''-xmp:all''] = Inl e"
  shows "\<exists>e. (\<exists>file\<in>set files. readRaw tool file [''all'', ''-xmp:all''] = Inl e)
             \<and> returned (getTags tool files) = Inl e
             \<and> returned (writeImageTags tool files desiredTags) = Inl e
             \<and> effects (writeImageTags tool files desiredTags) =
                 map (\<lambda>file. ReadRawCall file [''all'', ''-xmp:all'']) files
             \<and> filter is_WriteCall (effects (writeImageTags tool files desiredTags)) = []
             \<and> filter is_ConsoleLogRed (effects (writeImageTags tool files desiredTags)) = []"
proof -
  from getTags_rejected [OF assms] obtain e where
    e: "\<exists>file\<in>set files. readRaw tool file [''all'', ''-xmp:all''] = Inl e"
       "returned (getTags tool files) = Inl e" by blast
  have "writeImageTags tool files desiredTags =
          \<lparr>returned = Inl e,
           effects = map (\<lambda>file. ReadRawCall file [''all'', ''-xmp:all'']) files\<rparr>"
    by (rule writeImageTags_rejected [OF e(2)])
  then have "returned (writeImageTags tool files desiredTags) = Inl e
             \<and> effects (writeImageTags tool files desiredTags) =
                 map (\<lambda>file. ReadRawCall file [''all'', ''-xmp:all'']) files
             \<and> filter is_WriteCall (effects (writeImageTags tool files desiredTags)) = []
             \<and> filter is_ConsoleLogRed (effects (writeImageTags tool files desiredTags)) = []"
    by (simp add: filter_empty_conv)
  with e show ?thesis by blast
qed

text \<open>Three files, the second of which cannot be read.\<close>

theorem read_failure_aborts_batch_witness:
  "readRaw sample_tool ''missing.jpg'' [''all'', ''-xmp:all''] = Inl (Error ''File not found'')
   \<and> returned (getTags sample_tool [''a.jpg'', ''missing.jpg'', ''b.jpg'']) =
       Inl (Error ''File not found'')
   \<and> returned (writeImageTags sample_tool [''a.jpg'', ''missing.jpg'', ''b.jpg'']
                 [''creator'' \<mapsto> Some ''Carol'']) = Inl (Error ''File not found'')
   \<and> effects (writeImageTags sample_tool [''a.jpg'', ''missing.jpg'', ''b.jpg'']
                 [''creator'' \<mapsto> Some ''Carol'']) =
       [ReadRawCall ''a.jpg'' [''all'', ''-xmp:all''],
        ReadRawCall ''missing.jpg'' [''all'', ''-xmp:all''],
        ReadRawCall ''b.jpg'' [''all'', ''-xmp:all'']]"
proof -
  have r: "readRaw sample_tool ''missing.jpg'' [''all'', ''-xmp:all''] = Inl (Error ''File not found'')"
    by (simp add: sample_tool_def sample_read_def)
  then have h: "\<exists>file\<in>set [''a.jpg'', ''missing.jpg'', ''b.jpg''].
          \<exists>e. readRaw sample_tool file [''all'', ''-xmp:all''] = Inl e"
    by simp
  from read_failure_aborts_batch [OF h, of "[''creator'' \<mapsto> Some ''Carol'']"]
  obtain e where e: "\<exists>file\<in>set [''a.jpg'', ''missing.jpg'', ''b.jpg''].
        readRaw sample_tool file [''all'', ''-xmp:all''] = Inl e"
    "returned (getTags sample_tool [''a.jpg'', ''missing.jpg'', ''b.jpg'']) = Inl e"
    "returned (writeImageTags sample_tool [''a.jpg'', ''missing.jpg'', ''b.jpg'']
                 [''creator'' \<mapsto> Some ''Carol'']) = Inl e"
    "effects (writeImageTags sample_tool [''a.jpg'', ''missing.jpg'', ''b.jpg'']
                 [''creator'' \<mapsto> Some ''Carol'']) =
       map (\<lambda>file. ReadRawCall file [''all'', ''-xmp:all'']) [''a.jpg'', ''missing.jpg'', ''b.jpg'']"
    by blast
  from e(1) have "e = Error ''File not found''"
    by (auto simp: sample_tool_def sample_read_def)
  with r e(2,3,4) show ?thesis by simp
qed

lemma getTags_writeTags_update:
  "getTags (tool\<lparr>writeTags := other\<rparr>) files = getTags tool files"
  by (simp add: getTags_def)

lemma filter_ConsoleError_file_events:
  "filter is_ConsoleError (concat (map (file_events desiredTags) entries)) = []"
  by (induction entries) (simp_all add: file_events_def filter_empty_conv)

lemma writeImageTags_console_errors:
  assumes "returned (getTags tool files) = Inr fileTags"
  shows "filter is_ConsoleError (effects (writeImageTags tool files desiredTags)) =
           (case Promise_all
                   (if payload desiredTags = [] then []
                    else map (\<lambda>entry. writeTags tool (sourceFile (snd entry)) (payload desiredTags)
                                [''-overwrite_original'']) (Object_entries fileTags)) of
              Inl err \<Rightarrow> [ConsoleError (message err)]
            | Inr done \<Rightarrow> [])"
  by (simp add: writeImageTags_effects [OF assms] filter_ConsoleError_file_events
        filter_empty_conv image_iff split: sum.split)

text \<open>
  Claim C7. When the read phase succeeds, whatever the write calls answer:
  \<open>writeImageTags\<close> returns normally with a list of warnings; the returned value and the
  write requests issued are the same as with any other behaviour \<open>other\<close> of the write
  calls, so a failing write neither stops the other requests from being issued nor shows in
  the returned value; and when some issued write fails, the message of one failed write is
  the one line logged with \<^verbatim>\<open>console.error\<close>.
\<close>

theorem write_failures_are_swallowed:
  assumes "returned (getTags tool files) = Inr fileTags"
  shows "(\<exists>warnings. returned (writeImageTags tool files desiredTags) = Inr warnings)
       \<and> returned (writeImageTags (tool\<lparr>writeTags := other\<rparr>) files desiredTags) =
           returned (writeImageTags tool files desiredTags)
       \<and> filter is_WriteCall (effects (writeImageTags (tool\<lparr>writeTags := other\<rparr>) files desiredTags)) =
           filter is_WriteCall (effects (writeImageTags tool files desiredTags))
       \<and> ((\<exists>entry\<in>set fileTags. \<exists>e. payload desiredTags \<noteq> [] \<and>
              writeTags tool (sourceFile (snd entry)) (payload desiredTags)
                [''-overwrite_original''] = Inl e) \<longrightarrow>
            (\<exists>e. (\<exists>entry\<in>set fileTags.
                     writeTags tool (sourceFile (snd entry)) (payload desiredTags)
                       [''-overwrite_original''] = Inl e) \<and>
                 filter is_ConsoleError (effects (writeImageTags tool files desiredTags)) =
                   [ConsoleError (message e)]))"
proof -
  have g: "returned (getTags (tool\<lparr>writeTags := other\<rparr>) files) = Inr fileTags"
    using assms by (simp add: getTags_writeTags_update)
  have 1: "\<exists>warnings. returned (writeImageTags tool files desiredTags) = Inr warnings"
    by (simp add: writeImageTags_returned [OF assms])
  have 2: "returned (writeImageTags (tool\<lparr>writeTags := other\<rparr>) files desiredTags) =
           returned (writeImageTags tool files desiredTags)"
    by (simp add: writeImageTags_returned [OF assms] writeImageTags_returned [OF g])
  have 3: "filter is_WriteCall (effects (writeImageTags (tool\<lparr>writeTags := other\<rparr>) files desiredTags)) =
           filter is_WriteCall (effects (writeImageTags tool files desiredTags))"
    by (simp only: writeImageTags_write_calls [OF assms] writeImageTags_write_calls [OF g])
  have 4: "\<exists>e. (\<exists>entry\<in>set fileTags.
                     writeTags tool (sourceFile (snd entry)) (payload desiredTags)
                       [''-overwrite_original''] = Inl e) \<and>
                 filter is_ConsoleError (effects (writeImageTags tool files desiredTags)) =
                   [ConsoleError (message e)]"
    if f: "\<exists>entry\<in>set fileTags. \<exists>e. payload desiredTags \<noteq> [] \<and>
              writeTags tool (sourceFile (snd entry)) (payload desiredTags)
                [''-overwrite_original''] = Inl e"
  proof -
    let ?ps = "map (\<lambda>entry. writeTags tool (sourceFile (snd entry)) (payload desiredTags)
                                [''-overwrite_original'']) (Object_entries fileTags)"
    from f have ne: "payload desiredTags \<noteq> []" by blast
    from f have "\<exists>e. Inl e \<in> set ?ps"
      by (force simp: set_Object_entries)
    then obtain e where e: "Promise_all ?ps = Inl e"
      using Promise_all_rejected [of ?ps] by blast
    from Promise_all_reason [OF e]
    have "\<exists>entry\<in>set fileTags.
                     writeTags tool (sourceFile (snd entry)) (payload desiredTags)
                       [''-overwrite_original''] = Inl e"
      by (force simp: set_Object_entries)
    moreover have "filter is_ConsoleError (effects (writeImageTags tool files desiredTags)) =
                   [ConsoleError (message e)]"
      using ne e by (simp add: writeImageTags_console_errors [OF assms])
    ultimately show ?thesis by blast
  qed
  show ?thesis
    by (intro conjI impI 1 2 3 4; assumption)
qed

text \<open>Two files; the write of the second fails. Both write requests are issued, both
  warnings are returned, as with a tool whose writes all succeed, and the message is
  logged.\<close>

theorem write_failures_are_swallowed_witness:
  "returned (getTags sample_tool [''a.jpg'', ''b.jpg'']) =
     Inr [(''a.jpg'', \<lparr>fileName = ''a.jpg'', fileType = image_type,
             sourceFile = Some ''/pics/a.jpg'', creator = Some ''Alice'', license = None,
             rights = Some ''(c) Alice''\<rparr>),
          (''b.jpg'', \<lparr>fileName = ''b.jpg'', fileType = image_type,
             sourceFile = Some ''/pics/b.jpg'', creator = Some ''Bob'', license = Some ''CC0'',
             rights = None\<rparr>)]
   \<and> writeTags sample_tool (Some ''/pics/b.jpg'') [(''XMP:Creator'', Some ''Carol'')]
         [''-overwrite_original''] = Inl (Error ''write failed'')
   \<and> returned (writeImageTags (sample_tool\<lparr>writeTags := \<lambda>target tags args. Inr ()\<rparr>)
                 [''a.jpg'', ''b.jpg''] [''creator'' \<mapsto> Some ''Carol'']) =
       returned (writeImageTags sample_tool [''a.jpg'', ''b.jpg''] [''creator'' \<mapsto> Some ''Carol''])
   \<and> filter is_WriteCall (effects (writeImageTags (sample_tool\<lparr>writeTags := \<lambda>target tags args. Inr ()\<rparr>)
                 [''a.jpg'', ''b.jpg''] [''creator'' \<mapsto> Some ''Carol''])) =
       filter is_WriteCall (effects (writeImageTags sample_tool [''a.jpg'', ''b.jpg'']
                 [''creator'' \<mapsto> Some ''Carol'']))
   \<and> filter is_ConsoleError (effects (writeImageTags sample_tool [''a.jpg'', ''b.jpg'']
                 [''creator'' \<mapsto> Some ''Carol''])) = [ConsoleError ''write failed'']
   \<and> returned (writeImageTags sample_tool [''a.jpg'', ''b.jpg''] [''creator'' \<mapsto> Some ''Carol'']) =
       Inr [''WARNING: Overwriting a.jpg existing creator: Alice with Carol'',
            ''WARNING: Overwriting b.jpg existing creator: Bob with Carol'']
   \<and> filter is_WriteCall (effects (writeImageTags sample_tool [''a.jpg'', ''b.jpg'']
                 [''creator'' \<mapsto> Some ''Carol''])) =
       [WriteCall (Some ''/pics/a.jpg'') [(''XMP:Creator'', Some ''Carol'')] [''-overwrite_original''],
        WriteCall (Some ''/pics/b.jpg'') [(''XMP:Creator'', Some ''Carol'')] [''-overwrite_original'']]"
proof -
  let ?d = "[''creator'' \<mapsto> Some ''Carol'']"
  have p: "payload ?d = [(''XMP:Creator'', Some ''Carol'')]"
    by (simp add: payload_def staged_def)
  have w: "writeTags sample_tool (Some ''/pics/b.jpg'') [(''XMP:Creator'', Some ''Carol'')]
         [''-overwrite_original''] = Inl (Error ''write failed'')"
    by (simp add: sample_tool_def sample_write_def)
  note t = write_failures_are_swallowed [OF sample_getTags_ab, of ?d "\<lambda>target tags args. Inr ()"]
  from t have "\<exists>e. (\<exists>entry\<in>set [(''a.jpg'', \<lparr>fileName = ''a.jpg'', fileType = image_type,
             sourceFile = Some ''/pics/a.jpg'', creator = Some ''Alice'', license = None,
             rights = Some ''(c) Alice''\<rparr>),
          (''b.jpg'', \<lparr>fileName = ''b.jpg'', fileType = image_type,
             sourceFile = Some ''/pics/b.jpg'', creator = Some ''Bob'', license = Some ''CC0'',
             rights = None\<rparr>)].
                     writeTags sample_tool (sourceFile (snd entry)) (payload ?d)
                       [''-overwrite_original''] = Inl e) \<and>
                 filter is_ConsoleError (effects (writeImageTags sample_tool [''a.jpg'', ''b.jpg''] ?d)) =
                   [ConsoleError (message e)]"
    using w by (simp add: p)
  then have "filter is_ConsoleError (effects (writeImageTags sample_tool [''a.jpg'', ''b.jpg''] ?d)) =
                   [ConsoleError ''write failed'']"
    by (auto simp: p sample_tool_def sample_write_def split: if_splits)
  moreover have "returned (writeImageTags sample_tool [''a.jpg'', ''b.jpg''] ?d) =
       Inr [''WARNING: Overwriting a.jpg existing creator: Alice with Carol'',
            ''WARNING: Overwriting b.jpg existing creator: Bob with Carol'']"
    by (simp add: writeImageTags_returned [OF sample_getTags_ab] sample_entries_ab
          file_warnings_def field_warning_def warning_text_def template_simps)
  moreover have "filter is_WriteCall (effects (writeImageTags sample_tool [''a.jpg'', ''b.jpg''] ?d)) =
       [WriteCall (Some ''/pics/a.jpg'') [(''XMP:Creator'', Some ''Carol'')] [''-overwrite_original''],
        WriteCall (Some ''/pics/b.jpg'') [(''XMP:Creator'', Some ''Carol'')] [''-overwrite_original'']]"
    by (simp add: writeImageTags_write_calls [OF sample_getTags_ab] sample_entries_ab p)
  ultimately show ?thesis using t w sample_getTags_ab by simp
qed

section \<open>The order of the two phases\<close>

lemma filter_ReadRawCall_file_events:
  "filter is_ReadRawCall (concat (map (file_events desiredTags) entries)) = []"
  by (induction entries) (simp_all add: file_events_def filter_empty_conv)

lemma getTags_all_fulfilled:
  assumes "returned (getTags tool files) = Inr fileTags"
  shows "\<forall>file\<in>set files. \<exists>raw. readRaw tool file [''all'', ''-xmp:all''] = Inr raw"
proof
  fix f assume f: "f \<in> set files"
  from getTags_fulfilled [OF assms] obtain allTags where
    m: "map (\<lambda>file. readRaw tool file [''all'', ''-xmp:all'']) files = map Inr allTags"
    by blast
  from f have "readRaw tool f [''all'', ''-xmp:all'']
                 \<in> set (map (\<lambda>file. readRaw tool file [''all'', ''-xmp:all'']) files)"
    by simp
  then have "readRaw tool f [''all'', ''-xmp:all''] \<in> set (map Inr allTags)"
    by (simp only: m)
  then show "\<exists>raw. readRaw tool f [''all'', ''-xmp:all''] = Inr raw"
    by auto
qed

lemma sample_effects_ab:
  "effects (writeImageTags sample_tool [''a.jpg'', ''b.jpg''] [''creator'' \<mapsto> Some ''Carol'']) =
     [ReadRawCall ''a.jpg'' [''all'', ''-xmp:all''],
      ReadRawCall ''b.jpg'' [''all'', ''-xmp:all''],
      ConsoleLogRed ''WARNING: Overwriting a.jpg existing creator: Alice with Carol'',
      WriteCall (Some ''/pics/a.jpg'') [(''XMP:Creator'', Some ''Carol'')] [''-overwrite_original''],
      ConsoleLogRed ''WARNING: Overwriting b.jpg existing creator: Bob with Carol'',
      WriteCall (Some ''/pics/b.jpg'') [(''XMP:Creator'', Some ''Carol'')] [''-overwrite_original''],
      ConsoleError ''write failed'']"
  unfolding writeImageTags_effects [OF sample_getTags_ab]
  by (simp add: sample_entries_ab file_events_def file_warnings_def field_warning_def
        warning_text_def template_simps payload_def staged_def sample_tool_def
        sample_write_def)

text \<open>
  Claim C9. The effects of \<open>writeImageTags\<close>, in the order in which the program produces
  them, are the read calls of all the files followed by a rest that holds no read call; and
  when the rest holds a write request, every read was fulfilled, \<open>getTags\<close> returned the
  complete mapping, and the write requests are those computed from that mapping. The calls
  of one phase are issued without waiting for each other; what the tool does with them
  concurrently is not part of the trace.
\<close>

theorem read_phase_precedes_write_phase:
  "\<exists>rest. effects (writeImageTags tool files desiredTags) =
            map (\<lambda>file. ReadRawCall file [''all'', ''-xmp:all'']) files @ rest
        \<and> filter is_ReadRawCall rest = []
        \<and> (filter is_WriteCall rest \<noteq> [] \<longrightarrow>
             (\<forall>file\<in>set files. \<exists>raw. readRaw tool file [''all'', ''-xmp:all''] = Inr raw) \<and>
             (\<exists>fileTags. returned (getTags tool files) = Inr fileTags \<and>
                filter is_WriteCall rest =
                  map (\<lambda>entry. WriteCall (sourceFile (snd entry)) (payload desiredTags)
                         [''-overwrite_original'']) (Object_entries fileTags)))"
proof (cases "returned (getTags tool files)")
  case (Inl e)
  have "effects (writeImageTags tool files desiredTags) =
          map (\<lambda>file. ReadRawCall file [''all'', ''-xmp:all'']) files @ []"
    by (simp add: writeImageTags_rejected [OF Inl])
  then show ?thesis by (intro exI [of _ "[]"]) simp
next
  case (Inr fileTags)
  let ?rest = "concat (map (file_events desiredTags) (Object_entries fileTags)) @
           (case Promise_all
                   (if payload desiredTags = [] then []
                    else map (\<lambda>entry. writeTags tool (sourceFile (snd entry)) (payload desiredTags)
                                [''-overwrite_original'']) (Object_entries fileTags)) of
              Inl err \<Rightarrow> [ConsoleError (message err)]
            | Inr done \<Rightarrow> [])"
  have 1: "effects (writeImageTags tool files desiredTags) =
            map (\<lambda>file. ReadRawCall file [''all'', ''-xmp:all'']) files @ ?rest"
    by (rule writeImageTags_effects [OF Inr])
  have 2: "filter is_ReadRawCall ?rest = []"
    by (simp add: filter_ReadRawCall_file_events split: sum.split)
  have w: "filter is_WriteCall ?rest =
            (if payload desiredTags = [] then []
             else map (\<lambda>entry. WriteCall (sourceFile (snd entry)) (payload desiredTags)
                         [''-overwrite_original'']) (Object_entries fileTags))"
    by (simp add: filter_WriteCall_file_events split: sum.split)
  have 3: "filter is_WriteCall ?rest \<noteq> [] \<longrightarrow>
             (\<forall>file\<in>set files. \<exists>raw. readRaw tool file [''all'', ''-xmp:all''] = Inr raw) \<and>
             (\<exists>fileTags. returned (getTags tool files) = Inr fileTags \<and>
                filter is_WriteCall ?rest =
                  map (\<lambda>entry. WriteCall (sourceFile (snd entry)) (payload desiredTags)
                         [''-overwrite_original'']) (Object_entries fileTags))"
  proof
    assume "filter is_WriteCall ?rest \<noteq> []"
    with w have "filter is_WriteCall ?rest =
            map (\<lambda>entry. WriteCall (sourceFile (snd entry)) (payload desiredTags)
                         [''-overwrite_original'']) (Object_entries fileTags)"
      by (simp split: if_splits)
    with Inr getTags_all_fulfilled [OF Inr]
    show "(\<forall>file\<in>set files. \<exists>raw. readRaw tool file [''all'', ''-xmp:all''] = Inr raw) \<and>
             (\<exists>fileTags. returned (getTags tool files) = Inr fileTags \<and>
                filter is_WriteCall ?rest =
                  map (\<lambda>entry. WriteCall (sourceFile (snd entry)) (payload desiredTags)
                         [''-overwrite_original'']) (Object_entries fileTags))"
      by blast
  qed
  from 1 2 3 show ?thesis by (intro exI [of _ ?rest] conjI)
qed

text \<open>The whole trace of a run on two files.\<close>

theorem read_phase_precedes_write_phase_witness:
  "effects (writeImageTags sample_tool [''a.jpg'', ''b.jpg''] [''creator'' \<mapsto> Some ''Carol'']) =
     [ReadRawCall ''a.jpg'' [''all'', ''-xmp:all''],
      ReadRawCall ''b.jpg'' [''all'', ''-xmp:all''],
      ConsoleLogRed ''WARNING: Overwriting a.jpg existing creator: Alice with Carol'',
      WriteCall (Some ''/pics/a.jpg'') [(''XMP:Creator'', Some ''Carol'')] [''-overwrite_original''],
      ConsoleLogRed ''WARNING: Overwriting b.jpg existing creator: Bob with Carol'',
      WriteCall (Some ''/pics/b.jpg'') [(''XMP:Creator'', Some ''Carol'')] [''-overwrite_original''],
      ConsoleError ''write failed'']
   \<and> (\<exists>raw. readRaw sample_tool ''a.jpg'' [''all'', ''-xmp:all''] = Inr raw)
   \<and> (\<exists>raw. readRaw sample_tool ''b.jpg'' [''all'', ''-xmp:all''] = Inr raw)"
proof -
  let ?d = "[''creator'' \<mapsto> Some ''Carol'']"
  from read_phase_precedes_write_phase [of sample_tool "[''a.jpg'', ''b.jpg'']" ?d]
  obtain rest where
    r: "effects (writeImageTags sample_tool [''a.jpg'', ''b.jpg''] ?d) =
          map (\<lambda>file. ReadRawCall file [''all'', ''-xmp:all'']) [''a.jpg'', ''b.jpg''] @ rest"
    and w: "filter is_WriteCall rest \<noteq> [] \<longrightarrow>
             (\<forall>file\<in>set [''a.jpg'', ''b.jpg''].
                \<exists>raw. readRaw sample_tool file [''all'', ''-xmp:all''] = Inr raw)"
    by blast
  from r have "rest =
     [ConsoleLogRed ''WARNING: Overwriting a.jpg existing creator: Alice with Carol'',
      WriteCall (Some ''/pics/a.jpg'') [(''XMP:Creator'', Some ''Carol'')] [''-overwrite_original''],
      ConsoleLogRed ''WARNING: Overwriting b.jpg existing creator: Bob with Carol'',
      WriteCall (Some ''/pics/b.jpg'') [(''XMP:Creator'', Some ''Carol'')] [''-overwrite_original''],
      ConsoleError ''write failed'']"
    by (simp add: sample_effects_ab)
  then have "filter is_WriteCall rest \<noteq> []" by simp
  with w have "\<forall>file\<in>set [''a.jpg'', ''b.jpg''].
                \<exists>raw. readRaw sample_tool file [''all'', ''-xmp:all''] = Inr raw"
    by blast
  then show ?thesis by (simp add: sample_effects_ab)
qed

section \<open>Fields that are not targeted\<close>

lemma same_entry_put:
  "list_all2 (same_entry d) obj obj' \<Longrightarrow> same_entry d (k, v) (k, v') \<Longrightarrow>
   list_all2 (same_entry d) (put obj k v) (put obj' k v')"
proof (induction obj obj' rule: list_all2_induct)
  case Nil
  then show ?case by simp
next
  case (Cons p ps q qs)
  from Cons.hyps(1) have "fst q = fst p" by (simp add: same_entry_def)
  with Cons show ?case by simp
qed

lemma same_entry_add_linkedFile:
  assumes "list_all2 (same_entry d) obj obj'" and "same_targeted d raw raw'"
  shows "list_all2 (same_entry d) (add_linkedFile obj raw) (add_linkedFile obj' raw')"
proof -
  from assms(2) have k: "basename (SourceFile raw') = basename (SourceFile raw)"
    by (simp add: same_targeted_def)
  from assms(2) have "same_entry d (basename (SourceFile raw), linkedFile raw)
                        (basename (SourceFile raw), linkedFile raw')"
    by (simp add: same_entry_def same_targeted_def linkedFile_def)
  with assms(1) show ?thesis
    by (simp add: add_linkedFile_linkedFile k assign_def same_entry_put)
qed

lemma same_entry_foldl:
  "list_all2 (same_targeted d) allTags allTags' \<Longrightarrow> list_all2 (same_entry d) obj obj' \<Longrightarrow>
   list_all2 (same_entry d) (foldl add_linkedFile obj allTags) (foldl add_linkedFile obj' allTags')"
proof (induction allTags allTags' arbitrary: obj obj' rule: list_all2_induct)
  case Nil
  then show ?case by simp
next
  case (Cons t ts t' ts')
  then show ?case by (simp add: same_entry_add_linkedFile)
qed

lemma Promise_all_related:
  "list_all2 (rel_sum (=) R) ps ps' \<Longrightarrow>
   rel_sum (=) (list_all2 R) (Promise_all ps) (Promise_all ps')"
proof (induction ps ps' rule: list_all2_induct)
  case Nil
  show ?case by simp
next
  case (Cons p ps p' ps')
  then show ?case
    by (cases p; cases p'; cases "Promise_all ps"; cases "Promise_all ps'") auto
qed

lemma same_entry_filter:
  "list_all2 (same_entry d) obj obj' \<Longrightarrow>
   list_all2 (same_entry d) (filter (\<lambda>p. P (fst p)) obj) (filter (\<lambda>p. P (fst p)) obj')"
proof (induction obj obj' rule: list_all2_induct)
  case Nil
  show ?case by simp
next
  case (Cons p ps q qs)
  from Cons.hyps(1) have "fst q = fst p" by (simp add: same_entry_def)
  with Cons show ?case by simp
qed

lemma same_entry_insort:
  "list_all2 (same_entry d) xs ys \<Longrightarrow> same_entry d x y \<Longrightarrow>
   list_all2 (same_entry d) (insort_key (\<lambda>p. f (fst p)) x xs) (insort_key (\<lambda>p. f (fst p)) y ys)"
proof (induction xs ys rule: list_all2_induct)
  case Nil
  then show ?case by simp
next
  case (Cons p ps q qs)
  from Cons.hyps(1) Cons.prems have "fst q = fst p" "fst y = fst x"
    by (simp_all add: same_entry_def)
  with Cons show ?case by simp
qed

lemma same_entry_sort:
  "list_all2 (same_entry d) xs ys \<Longrightarrow>
   list_all2 (same_entry d) (sort_key (\<lambda>p. f (fst p)) xs) (sort_key (\<lambda>p. f (fst p)) ys)"
  by (induction xs ys rule: list_all2_induct) (simp_all add: same_entry_insort)

lemma same_entry_Object_entries:
  "list_all2 (same_entry d) obj obj' \<Longrightarrow>
   list_all2 (same_entry d) (Object_entries obj) (Object_entries obj')"
  unfolding Object_entries_def
  by (intro list_all2_appendI same_entry_sort same_entry_filter)

lemma field_warning_same:
  "d f = None \<or> c' = c \<Longrightarrow> field_warning d b f c' = field_warning d b f c"
  by (auto simp: field_warning_def)

lemma same_entry_file_warnings:
  assumes "same_entry d entry entry'"
  shows "file_warnings d entry' = file_warnings d entry"
proof -
  from assms have "fst entry' = fst entry"
    and "d ''creator'' = None \<or> creator (snd entry') = creator (snd entry)"
    and "d ''license'' = None \<or> license (snd entry') = license (snd entry)"
    and "d ''rights'' = None \<or> rights (snd entry') = rights (snd entry)"
    by (simp_all add: same_entry_def)
  then show ?thesis
    unfolding file_warnings_def
    by (simp only: field_warning_same [of d "''creator''"] field_warning_same [of d "''license''"]
          field_warning_same [of d "''rights''"])
qed

lemma same_entry_file_events:
  "same_entry d entry entry' \<Longrightarrow> file_events d entry' = file_events d entry"
  by (simp add: file_events_def same_entry_file_warnings) (simp add: same_entry_def)

lemma same_entry_map:
  assumes "list_all2 (same_entry d) es es'" and "\<And>e e'. same_entry d e e' \<Longrightarrow> f e' = f e"
  shows "map f es' = map f es"
  using assms(1) by (induction es es' rule: list_all2_induct) (simp_all add: assms(2))

lemma getTags_returned:
  "returned (getTags tool files) =
     (case Promise_all (map (\<lambda>file. readRaw tool file [''all'', ''-xmp:all'']) files) of
        Inl e \<Rightarrow> Inl e
      | Inr allTags \<Rightarrow> Inr (foldl add_linkedFile [] allTags))"
  by (simp add: getTags_def Let_def split: sum.split)

lemma writeImageTags_same:
  assumes w: "writeTags tool' = writeTags tool"
    and r: "\<And>file. rel_sum (=) (same_targeted desiredTags)
                 (readRaw tool file [''all'', ''-xmp:all''])
                 (readRaw tool' file [''all'', ''-xmp:all''])"
  shows "returned (writeImageTags tool' files desiredTags) =
           returned (writeImageTags tool files desiredTags)
       \<and> effects (writeImageTags tool' files desiredTags) =
           effects (writeImageTags tool files desiredTags)"
proof -
  let ?ps = "map (\<lambda>file. readRaw tool file [''all'', ''-xmp:all'']) files"
  let ?ps' = "map (\<lambda>file. readRaw tool' file [''all'', ''-xmp:all'']) files"
  have "list_all2 (rel_sum (=) (same_targeted desiredTags)) ?ps ?ps'"
    by (simp add: list_all2_map1 list_all2_map2 list_all2_same r)
  then have rel: "rel_sum (=) (list_all2 (same_targeted desiredTags))
                    (Promise_all ?ps) (Promise_all ?ps')"
    by (rule Promise_all_related)
  show ?thesis
  proof (cases "Promise_all ?ps")
    case (Inl e)
    with rel have "Promise_all ?ps' = Inl e"
      by (cases "Promise_all ?ps'") simp_all
    with Inl have "returned (getTags tool files) = Inl e" "returned (getTags tool' files) = Inl e"
      by (simp_all add: getTags_returned)
    then show ?thesis
      by (simp add: writeImageTags_rejected)
  next
    case (Inr allTags)
    with rel obtain allTags' where a': "Promise_all ?ps' = Inr allTags'"
      and ts: "list_all2 (same_targeted desiredTags) allTags allTags'"
      by (cases "Promise_all ?ps'") simp_all
    let ?m = "foldl add_linkedFile [] allTags"
    let ?m' = "foldl add_linkedFile [] allTags'"
    from Inr a' have g: "returned (getTags tool files) = Inr ?m"
      and g': "returned (getTags tool' files) = Inr ?m'"
      by (simp_all add: getTags_returned)
    from ts have "list_all2 (same_entry desiredTags) ?m ?m'"
      by (rule same_entry_foldl) simp
    then have es: "list_all2 (same_entry desiredTags) (Object_entries ?m) (Object_entries ?m')"
      by (rule same_entry_Object_entries)
    have 1: "map (file_warnings desiredTags) (Object_entries ?m') =
             map (file_warnings desiredTags) (Object_entries ?m)"
      by (rule same_entry_map [OF es]) (rule same_entry_file_warnings)
    have 2: "map (file_events desiredTags) (Object_entries ?m') =
             map (file_events desiredTags) (Object_entries ?m)"
      by (rule same_entry_map [OF es]) (rule same_entry_file_events)
    have 3: "map (\<lambda>entry. writeTags tool (sourceFile (snd entry)) (payload desiredTags)
                    [''-overwrite_original'']) (Object_entries ?m') =
             map (\<lambda>entry. writeTags tool (sourceFile (snd entry)) (payload desiredTags)
                    [''-overwrite_original'']) (Object_entries ?m)"
      by (rule same_entry_map [OF es]) (simp add: same_entry_def)
    show ?thesis
      by (simp only: writeImageTags_returned [OF g] writeImageTags_returned [OF g']
            writeImageTags_effects [OF g] writeImageTags_effects [OF g'] 1 2 3 w simp_thms)
  qed
qed

lemma WriteCall_payload:
  assumes "WriteCall target tags args \<in> set (effects (writeImageTags tool files desiredTags))"
  shows "tags = payload desiredTags"
proof (cases "returned (getTags tool files)")
  case (Inl e)
  with assms show ?thesis by (auto simp: writeImageTags_rejected)
next
  case (Inr fileTags)
  with assms show ?thesis by (simp add: WriteCall_in_effects)
qed

lemma payload_absent_key:
  assumes "(f, cur, tag) \<in> set tracked" and "desiredTags f = None"
  shows "tag \<notin> fst ` set (payload desiredTags)"
  using assms
  by (elim tracked_cases) (auto simp: payload_def staged_def split: option.splits)

lemma file_warnings_present_keys:
  "file_warnings desiredTags entry =
     concat (map (\<lambda>(f, cur, tag). field_warning desiredTags (fst entry) f (cur (snd entry)))
               (filter (\<lambda>(f, cur, tag). desiredTags f \<noteq> None) tracked))"
  by (cases "desiredTags ''creator''"; cases "desiredTags ''license''";
      cases "desiredTags ''rights''")
     (simp_all add: file_warnings_def field_warning_def tracked_def)

lemma other_tool_agrees:
  "rel_sum (=) (same_targeted [''license'' \<mapsto> Some ''X''])
     (readRaw sample_tool file [''all'', ''-xmp:all''])
     (readRaw other_tool file [''all'', ''-xmp:all''])"
  by (simp add: sample_tool_def other_tool_def other_read_def sample_read_def
        same_targeted_def)

text \<open>
  Claim C8. The fields whose keys are absent from \<open>desiredTags\<close> are left untouched. Let
  two tools answer the write calls alike and report, for every file, the same failure or
  raw tags with the same path and the same values of the targeted fields; the values of the
  fields that are not targeted may differ. Then \<open>writeImageTags\<close> returns the same value
  and has the same effects with both: the current values of the untargeted fields, which
  \<open>getTags\<close> fetches with the others, are used for nothing. No write payload holds the tag
  name of an untargeted field, and the returned warnings are those of the targeted fields
  only. With \<^verbatim>\<open>{license: "X"}\<close> the untargeted fields are creator and rights.
\<close>

theorem untargeted_fields_untouched:
  assumes "writeTags tool' = writeTags tool"
    and "\<And>file. rel_sum (=) (same_targeted desiredTags)
                 (readRaw tool file [''all'', ''-xmp:all''])
                 (readRaw tool' file [''all'', ''-xmp:all''])"
  shows "returned (writeImageTags tool' files desiredTags) =
           returned (writeImageTags tool files desiredTags)
       \<and> effects (writeImageTags tool' files desiredTags) =
           effects (writeImageTags tool files desiredTags)
       \<and> (\<forall>target tags args.
            WriteCall target tags args \<in> set (effects (writeImageTags tool files desiredTags)) \<longrightarrow>
            (\<forall>(f, cur, tag)\<in>set tracked. desiredTags f = None \<longrightarrow> tag \<notin> fst ` set tags))
       \<and> (\<forall>fileTags. returned (getTags tool files) = Inr fileTags \<longrightarrow>
            returned (writeImageTags tool files desiredTags) =
              Inr (concat (map (\<lambda>entry. concat (map (\<lambda>(f, cur, tag).
                     field_warning desiredTags (fst entry) f (cur (snd entry)))
                     (filter (\<lambda>(f, cur, tag). desiredTags f \<noteq> None) tracked)))
                   (Object_entries fileTags))))"
proof -
  note 1 = writeImageTags_same [OF assms, of files]
  have 2: "\<forall>target tags args.
            WriteCall target tags args \<in> set (effects (writeImageTags tool files desiredTags)) \<longrightarrow>
            (\<forall>(f, cur, tag)\<in>set tracked. desiredTags f = None \<longrightarrow> tag \<notin> fst ` set tags)"
    using WriteCall_payload payload_absent_key by blast
  have 3: "\<forall>fileTags. returned (getTags tool files) = Inr fileTags \<longrightarrow>
            returned (writeImageTags tool files desiredTags) =
              Inr (concat (map (\<lambda>entry. concat (map (\<lambda>(f, cur, tag).
                     field_warning desiredTags (fst entry) f (cur (snd entry)))
                     (filter (\<lambda>(f, cur, tag). desiredTags f \<noteq> None) tracked)))
                   (Object_entries fileTags)))"
  proof (intro allI impI)
    fix fileTags assume g: "returned (getTags tool files) = Inr fileTags"
    have "file_warnings desiredTags = (\<lambda>entry. concat (map (\<lambda>(f, cur, tag).
                     field_warning desiredTags (fst entry) f (cur (snd entry)))
                     (filter (\<lambda>(f, cur, tag). desiredTags f \<noteq> None) tracked)))"
      by (rule ext) (rule file_warnings_present_keys)
    then show "returned (writeImageTags tool files desiredTags) =
              Inr (concat (map (\<lambda>entry. concat (map (\<lambda>(f, cur, tag).
                     field_warning desiredTags (fst entry) f (cur (snd entry)))
                     (filter (\<lambda>(f, cur, tag). desiredTags f \<noteq> None) tracked)))
                   (Object_entries fileTags)))"
      by (simp only: writeImageTags_returned [OF g])
  qed
  from 1 2 3 show ?thesis by (intro conjI) simp_all
qed

text \<open>\<^verbatim>\<open>{license: "X"}\<close> on two files, and on the same files with other creators and
  rights: the same warnings about the license, the same write requests with the one key
  \<^verbatim>\<open>XMP:License\<close>.\<close>

theorem untargeted_fields_untouched_witness:
  "writeTags other_tool = writeTags sample_tool
   \<and> readRaw sample_tool ''a.jpg'' [''all'', ''-xmp:all''] =
       Inr \<lparr>SourceFile = ''/pics/a.jpg'', Creator = Some ''Alice'', License = None,
            Rights = Some ''(c) Alice''\<rparr>
   \<and> readRaw other_tool ''a.jpg'' [''all'', ''-xmp:all''] =
       Inr \<lparr>SourceFile = ''/pics/a.jpg'', Creator = Some ''Somebody else'', License = None,
            Rights = None\<rparr>
   \<and> returned (writeImageTags other_tool [''a.jpg'', ''b.jpg''] [''license'' \<mapsto> Some ''X'']) =
       returned (writeImageTags sample_tool [''a.jpg'', ''b.jpg''] [''license'' \<mapsto> Some ''X''])
   \<and> effects (writeImageTags other_tool [''a.jpg'', ''b.jpg''] [''license'' \<mapsto> Some ''X'']) =
       effects (writeImageTags sample_tool [''a.jpg'', ''b.jpg''] [''license'' \<mapsto> Some ''X''])
   \<and> returned (writeImageTags sample_tool [''a.jpg'', ''b.jpg''] [''license'' \<mapsto> Some ''X'']) =
       Inr [''WARNING: Overwriting a.jpg existing license: undefined with X'',
            ''WARNING: Overwriting b.jpg existing license: CC0 with X'']
   \<and> filter is_WriteCall
         (effects (writeImageTags sample_tool [''a.jpg'', ''b.jpg''] [''license'' \<mapsto> Some ''X''])) =
       [WriteCall (Some ''/pics/a.jpg'') [(''XMP:License'', Some ''X'')] [''-overwrite_original''],
        WriteCall (Some ''/pics/b.jpg'') [(''XMP:License'', Some ''X'')] [''-overwrite_original'']]"
proof -
  let ?d = "[''license'' \<mapsto> Some ''X'']"
  have w: "writeTags other_tool = writeTags sample_tool"
    by (simp add: other_tool_def sample_tool_def)
  have r: "readRaw sample_tool ''a.jpg'' [''all'', ''-xmp:all''] =
       Inr \<lparr>SourceFile = ''/pics/a.jpg'', Creator = Some ''Alice'', License = None,
            Rights = Some ''(c) Alice''\<rparr>"
     "readRaw other_tool ''a.jpg'' [''all'', ''-xmp:all''] =
       Inr \<lparr>SourceFile = ''/pics/a.jpg'', Creator = Some ''Somebody else'', License = None,
            Rights = None\<rparr>"
    by (simp_all add: other_tool_def sample_tool_def other_read_def sample_read_def)
  note t = untargeted_fields_untouched [OF w other_tool_agrees, of "[''a.jpg'', ''b.jpg'']"]
  from t have "returned (writeImageTags sample_tool [''a.jpg'', ''b.jpg''] ?d) =
       Inr [''WARNING: Overwriting a.jpg existing license: undefined with X'',
            ''WARNING: Overwriting b.jpg existing license: CC0 with X'']"
    by (simp add: sample_getTags_ab sample_entries_ab tracked_def field_warning_def
          warning_text_def template_simps)
  moreover have "filter is_WriteCall (effects (writeImageTags sample_tool [''a.jpg'', ''b.jpg''] ?d)) =
       [WriteCall (Some ''/pics/a.jpg'') [(''XMP:License'', Some ''X'')] [''-overwrite_original''],
        WriteCall (Some ''/pics/b.jpg'') [(''XMP:License'', Some ''X'')] [''-overwrite_original'']]"
    by (simp add: writeImageTags_write_calls [OF sample_getTags_ab] sample_entries_ab
          payload_def staged_def)
  ultimately show ?thesis using t w r by simp
qed

section \<open>The mapping built by \<^verbatim>\<open>getTags\<close>\<close>

lemma keys_put:
  "map fst (put obj k v) = (if k \<in> fst ` set obj then map fst obj else map fst obj @ [k])"
  by (induction obj) auto

lemma map_of_put: "map_of (put obj k v) = (map_of obj)(k \<mapsto> v)"
  by (induction obj) (auto simp: fun_eq_iff)

lemma first_occurrences_snoc:
  "first_occurrences (xs @ [x]) =
     (if x \<in> set xs then first_occurrences xs else first_occurrences xs @ [x])"
  by (simp add: first_occurrences_def)

lemma set_first_occurrences: "set (first_occurrences xs) = set xs"
  by (simp add: first_occurrences_def)

lemma distinct_first_occurrences: "distinct (first_occurrences xs)"
  by (simp add: first_occurrences_def)

lemma foldl_add_linkedFile_snoc:
  "foldl add_linkedFile [] (ts @ [t]) =
     assign (foldl add_linkedFile [] ts) (basename (SourceFile t)) (linkedFile t)"
  by (simp add: add_linkedFile_linkedFile)

lemma keys_foldl_add_linkedFile:
  "map fst (foldl add_linkedFile [] allTags) =
     first_occurrences (filter (\<lambda>k. k \<noteq> ''__proto__'')
                          (map (\<lambda>raw. basename (SourceFile raw)) allTags))"
proof (induction allTags rule: rev_induct)
  case Nil
  show ?case by (simp add: first_occurrences_def)
next
  case (snoc t ts)
  let ?keys = "filter (\<lambda>k. k \<noteq> ''__proto__'')
                 (map (\<lambda>raw. basename (SourceFile raw)) ts)"
  let ?obj = "foldl add_linkedFile [] ts"
  have "fst ` set ?obj = set (map fst ?obj)" by simp
  also have "\<dots> = set ?keys" by (simp only: snoc.IH set_first_occurrences)
  finally have s: "fst ` set ?obj = set ?keys" .
  show ?case
  proof (cases "basename (SourceFile t) = ''__proto__''")
    case True
    then show ?thesis
      by (simp add: foldl_add_linkedFile_snoc assign_def snoc.IH del: foldl_append)
  next
    case False
    then have "map fst (foldl add_linkedFile [] (ts @ [t])) =
                 (if basename (SourceFile t) \<in> set ?keys then map fst ?obj
                  else map fst ?obj @ [basename (SourceFile t)])"
      by (simp add: foldl_add_linkedFile_snoc assign_def keys_put s del: foldl_append)
    also have "\<dots> = first_occurrences (?keys @ [basename (SourceFile t)])"
      by (simp only: first_occurrences_snoc snoc.IH)
    finally show ?thesis using False by simp
  qed
qed

lemma map_of_foldl_add_linkedFile:
  "k \<noteq> ''__proto__'' \<Longrightarrow>
   map_of (foldl add_linkedFile [] allTags) k =
     map_of (rev (map (\<lambda>raw. (basename (SourceFile raw), linkedFile raw)) allTags)) k"
proof (induction allTags rule: rev_induct)
  case Nil
  show ?case by simp
next
  case (snoc t ts)
  then show ?case
    by (simp add: foldl_add_linkedFile_snoc assign_def map_of_put del: foldl_append)
qed

lemma Promise_all_map_Inr: "Promise_all (map Inr vs) = Inr vs"
  by (induction vs) simp_all

text \<open>
  The mapping of \<open>getTags\<close> when every read is fulfilled, \<open>allTags\<close> being the raw tags in
  the order of the input files: its keys are distinct, they are the base names of the
  reported paths other than \<^verbatim>\<open>__proto__\<close>, and under each such base name stands the
  entry of the last raw tags with that base name (\<open>map_of\<close> finds the first pair of the
  reversed list): \<open>fileName\<close> the base name, \<open>fileType\<close> image, and \<open>sourceFile\<close>,
  \<open>creator\<close>, \<open>license\<close>, \<open>rights\<close> from the raw tags.
\<close>

theorem getTags_mapping:
  assumes "map (\<lambda>file. readRaw tool file [''all'', ''-xmp:all'']) files = map Inr allTags"
  shows "\<exists>fileTags. returned (getTags tool files) = Inr fileTags
       \<and> distinct (map fst fileTags)
       \<and> set (map fst fileTags) =
           (\<lambda>raw. basename (SourceFile raw)) ` set allTags - {''__proto__''}
       \<and> (\<forall>k. k \<noteq> ''__proto__'' \<longrightarrow>
            map_of fileTags k =
              map_of (rev (map (\<lambda>raw. (basename (SourceFile raw), linkedFile raw)) allTags)) k)"
proof -
  let ?m = "foldl add_linkedFile [] allTags"
  have 1: "returned (getTags tool files) = Inr ?m"
    by (simp add: getTags_returned assms Promise_all_map_Inr)
  have 2: "distinct (map fst ?m)"
    by (simp only: keys_foldl_add_linkedFile distinct_first_occurrences)
  have 3: "set (map fst ?m) = (\<lambda>raw. basename (SourceFile raw)) ` set allTags - {''__proto__''}"
    unfolding keys_foldl_add_linkedFile set_first_occurrences by auto
  have 4: "\<forall>k. k \<noteq> ''__proto__'' \<longrightarrow>
            map_of ?m k =
              map_of (rev (map (\<lambda>raw. (basename (SourceFile raw), linkedFile raw)) allTags)) k"
    by (simp add: map_of_foldl_add_linkedFile)
  from 1 2 3 4 show ?thesis by blast
qed

text \<open>Two files with the same base name: one entry, that of the second file.\<close>

theorem getTags_mapping_witness:
  "map (\<lambda>file. readRaw sample_tool file [''all'', ''-xmp:all'']) [''b.jpg'', ''dir/b.jpg''] =
     map Inr [\<lparr>SourceFile = ''/pics/b.jpg'', Creator = Some ''Bob'', License = Some ''CC0'',
               Rights = None\<rparr>,
              \<lparr>SourceFile = ''dir/b.jpg'', Creator = Some ''Alice'', License = None,
               Rights = None\<rparr>]
   \<and> (\<exists>fileTags. returned (getTags sample_tool [''b.jpg'', ''dir/b.jpg'']) = Inr fileTags
        \<and> distinct (map fst fileTags)
        \<and> set (map fst fileTags) = {''b.jpg''}
        \<and> map_of fileTags ''b.jpg'' =
            Some \<lparr>fileName = ''b.jpg'', fileType = image_type, sourceFile = Some ''dir/b.jpg'',
                  creator = Some ''Alice'', license = None, rights = None\<rparr>)"
proof -
  have h: "map (\<lambda>file. readRaw sample_tool file [''all'', ''-xmp:all'']) [''b.jpg'', ''dir/b.jpg''] =
     map Inr [\<lparr>SourceFile = ''/pics/b.jpg'', Creator = Some ''Bob'', License = Some ''CC0'',
               Rights = None\<rparr>,
              \<lparr>SourceFile = ''dir/b.jpg'', Creator = Some ''Alice'', License = None,
               Rights = None\<rparr>]"
    by (simp add: sample_tool_def sample_read_def)
  have b: "basename ''/pics/b.jpg'' = ''b.jpg''" "basename ''dir/b.jpg'' = ''b.jpg''"
    by (simp_all add: basename_def)
  from getTags_mapping [OF h] obtain fileTags where
    f: "returned (getTags sample_tool [''b.jpg'', ''dir/b.jpg'']) = Inr fileTags"
       "distinct (map fst fileTags)"
    and k: "set (map fst fileTags) =
       (\<lambda>raw. basename (SourceFile raw)) `
         set [\<lparr>SourceFile = ''/pics/b.jpg'', Creator = Some ''Bob'', License = Some ''CC0'',
               Rights = None\<rparr>,
              \<lparr>SourceFile = ''dir/b.jpg'', Creator = Some ''Alice'', License = None,
               Rights = None\<rparr>] - {''__proto__''}"
    and l: "\<forall>k. k \<noteq> ''__proto__'' \<longrightarrow>
            map_of fileTags k =
              map_of (rev (map (\<lambda>raw. (basename (SourceFile raw), linkedFile raw))
                [\<lparr>SourceFile = ''/pics/b.jpg'', Creator = Some ''Bob'', License = Some ''CC0'',
                  Rights = None\<rparr>,
                 \<lparr>SourceFile = ''dir/b.jpg'', Creator = Some ''Alice'', License = None,
                  Rights = None\<rparr>])) k"
    by blast
  from k have k': "set (map fst fileTags) = {''b.jpg''}"
    by (simp add: b)
  from l have "map_of fileTags ''b.jpg'' =
              map_of (rev (map (\<lambda>raw. (basename (SourceFile raw), linkedFile raw))
                [\<lparr>SourceFile = ''/pics/b.jpg'', Creator = Some ''Bob'', License = Some ''CC0'',
                  Rights = None\<rparr>,
                 \<lparr>SourceFile = ''dir/b.jpg'', Creator = Some ''Alice'', License = None,
                  Rights = None\<rparr>])) ''b.jpg''"
    by simp
  then have l': "map_of fileTags ''b.jpg'' =
            Some \<lparr>fileName = ''b.jpg'', fileType = image_type, sourceFile = Some ''dir/b.jpg'',
                  creator = Some ''Alice'', license = None, rights = None\<rparr>"
    by (simp add: b linkedFile_def)
  from f k' l' have "\<exists>fileTags. returned (getTags sample_tool [''b.jpg'', ''dir/b.jpg'']) = Inr fileTags
        \<and> distinct (map fst fileTags)
        \<and> set (map fst fileTags) = {''b.jpg''}
        \<and> map_of fileTags ''b.jpg'' =
            Some \<lparr>fileName = ''b.jpg'', fileType = image_type, sourceFile = Some ''dir/b.jpg'',
                  creator = Some ''Alice'', license = None, rights = None\<rparr>"
    by (intro exI [of _ fileTags] conjI)
  with h show ?thesis by blast
qed

text \<open>
  Claim C5 fails at one base name. The assignment \<^verbatim>\<open>linkedFiles[id] = {...}\<close> with
  \<^verbatim>\<open>id\<close> equal to \<^verbatim>\<open>__proto__\<close> creates no property, so a file of that name has no
  entry in the mapping although its read succeeded.
\<close>

theorem getTags_loses_proto_file:
  "readRaw sample_tool ''dir/__proto__'' [''all'', ''-xmp:all''] =
     Inr \<lparr>SourceFile = ''dir/__proto__'', Creator = Some ''Alice'', License = None,
          Rights = None\<rparr>
   \<and> basename ''dir/__proto__'' = ''__proto__''
   \<and> returned (getTags sample_tool [''dir/__proto__'']) = Inr []
   \<and> returned (getTags sample_tool [''x.jpg'', ''dir/__proto__'']) =
       Inr [(''x.jpg'', \<lparr>fileName = ''x.jpg'', fileType = image_type,
               sourceFile = Some ''x.jpg'', creator = Some ''Alice'', license = None,
               rights = None\<rparr>)]"
  by (simp add: getTags_def sample_tool_def sample_read_def add_linkedFile_def
        parseJSON_stringify_def basename_def assign_def Let_def)

section \<open>The order of the warnings\<close>

lemma index_1_2:
  "is_array_index ''1''" "is_array_index ''2''" "index_value ''1'' = 1" "index_value ''2'' = 2"
  by (simp_all add: is_array_index_def is_digit_def index_value_def)

lemma sample_getTags_21:
  "returned (getTags sample_tool [''2'', ''1'']) =
     Inr [(''2'', \<lparr>fileName = ''2'', fileType = image_type, sourceFile = Some ''2'',
             creator = Some ''Alice'', license = None, rights = None\<rparr>),
          (''1'', \<lparr>fileName = ''1'', fileType = image_type, sourceFile = Some ''1'',
             creator = Some ''Alice'', license = None, rights = None\<rparr>)]"
  by (simp add: getTags_def sample_tool_def sample_read_def add_linkedFile_def
        parseJSON_stringify_def basename_def assign_def Let_def)

lemma sample_entries_21:
  "Object_entries [(''2'', x), (''1'', y)] = [(''1'', y), (''2'', x)]"
  by (simp add: Object_entries_def index_1_2)

text \<open>
  Claim C10, as stated, fails: the files do not appear in insertion order. The files
  \<^verbatim>\<open>2\<close> and \<^verbatim>\<open>1\<close> are entered into the mapping in this order, and the warning about
  \<^verbatim>\<open>1\<close> comes first, because \<^verbatim>\<open>Object.entries\<close> lists the keys that are array indices
  in ascending numeric order.
\<close>

theorem warnings_not_in_insertion_order:
  "returned (getTags sample_tool [''2'', ''1'']) =
     Inr [(''2'', \<lparr>fileName = ''2'', fileType = image_type, sourceFile = Some ''2'',
             creator = Some ''Alice'', license = None, rights = None\<rparr>),
          (''1'', \<lparr>fileName = ''1'', fileType = image_type, sourceFile = Some ''1'',
             creator = Some ''Alice'', license = None, rights = None\<rparr>)]
   \<and> returned (writeImageTags sample_tool [''2'', ''1''] [''creator'' \<mapsto> Some ''Carol'']) =
       Inr [''WARNING: Overwriting 1 existing creator: Alice with Carol'',
            ''WARNING: Overwriting 2 existing creator: Alice with Carol'']"
  by (simp add: sample_getTags_21 writeImageTags_returned [OF sample_getTags_21]
        sample_entries_21 file_warnings_def field_warning_def warning_text_def template_simps)

text \<open>
  Claim C10, amended. When the read phase succeeds, the returned list is ordered by the
  mapping alone: the files appear in the order of \<^verbatim>\<open>Object.entries\<close>, which is the files
  whose base name is an array index in ascending numeric order, then the other files in
  insertion order; within one file the warnings appear in the order creator, license,
  rights. The insertion order of the mapping is the order in which the base names first
  occur among the reported paths of the input files.
\<close>

theorem warnings_in_entries_order:
  assumes "returned (getTags tool files) = Inr fileTags"
  shows "returned (writeImageTags tool files desiredTags) =
           Inr (concat (map (\<lambda>entry.
                  field_warning desiredTags (fst entry) ''creator'' (creator (snd entry)) @
                  field_warning desiredTags (fst entry) ''license'' (license (snd entry)) @
                  field_warning desiredTags (fst entry) ''rights'' (rights (snd entry)))
                (sort_key (\<lambda>entry. index_value (fst entry))
                   (filter (\<lambda>entry. is_array_index (fst entry)) fileTags) @
                 filter (\<lambda>entry. \<not> is_array_index (fst entry)) fileTags)))
       \<and> (\<exists>allTags.
            map (\<lambda>file. readRaw tool file [''all'', ''-xmp:all'']) files = map Inr allTags \<and>
            map fst fileTags =
              first_occurrences (filter (\<lambda>k. k \<noteq> ''__proto__'')
                                   (map (\<lambda>raw. basename (SourceFile raw)) allTags)))"
proof -
  have "file_warnings desiredTags = (\<lambda>entry.
                  field_warning desiredTags (fst entry) ''creator'' (creator (snd entry)) @
                  field_warning desiredTags (fst entry) ''license'' (license (snd entry)) @
                  field_warning desiredTags (fst entry) ''rights'' (rights (snd entry)))"
    by (rule ext) (simp add: file_warnings_def)
  then have 1: "returned (writeImageTags tool files desiredTags) =
           Inr (concat (map (\<lambda>entry.
                  field_warning desiredTags (fst entry) ''creator'' (creator (snd entry)) @
                  field_warning desiredTags (fst entry) ''license'' (license (snd entry)) @
                  field_warning desiredTags (fst entry) ''rights'' (rights (snd entry)))
                (sort_key (\<lambda>entry. index_value (fst entry))
                   (filter (\<lambda>entry. is_array_index (fst entry)) fileTags) @
                 filter (\<lambda>entry. \<not> is_array_index (fst entry)) fileTags)))"
    by (simp only: writeImageTags_returned [OF assms] Object_entries_def)
  from getTags_fulfilled [OF assms] obtain allTags where
    a: "map (\<lambda>file. readRaw tool file [''all'', ''-xmp:all'']) files = map Inr allTags"
    "fileTags = foldl add_linkedFile [] allTags" by blast
  from a(2) have "map fst fileTags =
              first_occurrences (filter (\<lambda>k. k \<noteq> ''__proto__'')
                                   (map (\<lambda>raw. basename (SourceFile raw)) allTags))"
    by (simp only: keys_foldl_add_linkedFile)
  with a(1) 1 show ?thesis by blast
qed

text \<open>Four files, two of them with the same base name, two named by numbers.\<close>

theorem warnings_in_entries_order_witness:
  "returned (getTags sample_tool [''b.jpg'', ''2'', ''dir/b.jpg'', ''1'']) =
     Inr [(''b.jpg'', \<lparr>fileName = ''b.jpg'', fileType = image_type,
             sourceFile = Some ''dir/b.jpg'', creator = Some ''Alice'', license = None,
             rights = None\<rparr>),
          (''2'', \<lparr>fileName = ''2'', fileType = image_type, sourceFile = Some ''2'',
             creator = Some ''Alice'', license = None, rights = None\<rparr>),
          (''1'', \<lparr>fileName = ''1'', fileType = image_type, sourceFile = Some ''1'',
             creator = Some ''Alice'', license = None, rights = None\<rparr>)]
   \<and> returned (writeImageTags sample_tool [''b.jpg'', ''2'', ''dir/b.jpg'', ''1'']
                 [''creator'' \<mapsto> Some ''Carol'', ''rights'' \<mapsto> Some ''R'']) =
       Inr [''WARNING: Overwriting 1 existing creator: Alice with Carol'',
            ''WARNING: Overwriting 1 existing rights: undefined with R'',
            ''WARNING: Overwriting 2 existing creator: Alice with Carol'',
            ''WARNING: Overwriting 2 existing rights: undefined with R'',
            ''WARNING: Overwriting b.jpg existing creator: Alice with Carol'',
            ''WARNING: Overwriting b.jpg existing rights: undefined with R'']"
proof -
  have g: "returned (getTags sample_tool [''b.jpg'', ''2'', ''dir/b.jpg'', ''1'']) =
     Inr [(''b.jpg'', \<lparr>fileName = ''b.jpg'', fileType = image_type,
             sourceFile = Some ''dir/b.jpg'', creator = Some ''Alice'', license = None,
             rights = None\<rparr>),
          (''2'', \<lparr>fileName = ''2'', fileType = image_type, sourceFile = Some ''2'',
             creator = Some ''Alice'', license = None, rights = None\<rparr>),
          (''1'', \<lparr>fileName = ''1'', fileType = image_type, sourceFile = Some ''1'',
             creator = Some ''Alice'', license = None, rights = None\<rparr>)]"
    by (simp add: getTags_def sample_tool_def sample_read_def add_linkedFile_def
        parseJSON_stringify_def basename_def assign_def Let_def)
  from warnings_in_entries_order [OF g,
         of "[''creator'' \<mapsto> Some ''Carol'', ''rights'' \<mapsto> Some ''R'']"]
  show ?thesis
    using g
    by (simp add: index_1_2 not_index_ab field_warning_def warning_text_def template_simps)
qed

end
